theory Spec2Isabelle
  imports Complex_Main "HOL-Library.Word"
begin

unbundle bit_operations_syntax

section \<open>Conventions of the embedding\<close>

text \<open>
  The development embeds the fan-control daemon (\<^verbatim>\<open>src/clevo-daemon.c\<close>), its socket
  server (\<^verbatim>\<open>src/clevo-daemon-socket.c\<close>, function \<^verbatim>\<open>handle_client_command\<close>) and, of the
  indicator program that follows in the same file, the command line, \<^verbatim>\<open>main\<close>, the status
  loop and the adaptive tuner (the second copy of \<^verbatim>\<open>adaptive_pid_tune_parameters\<close>, which
  carries the rapid/steady learning phases).

  \<^item> C \<^verbatim>\<open>int\<close> values are modelled as \<open>int\<close>: the integers the code computes here stay
    far inside 32 bits (bytes read from the EC, duties in 0..100, a cycle counter that is
    reset at the tuning interval, pass counters that grow by one per tuning pass). The one
    place where a number can leave the range, the conversion \<^verbatim>\<open>%d\<close> of \<^verbatim>\<open>sscanf\<close>, is
    modelled with its wrap-around.
  \<^item> C \<^verbatim>\<open>double\<close> values are modelled as \<open>real\<close>: rounding of IEEE arithmetic is not
    represented, and a controller state stands for a state of the program in which every
    \<^verbatim>\<open>double\<close> variable holds a number. An infinity or a NaN can enter through \<^verbatim>\<open>atof\<close> at
    the indicator's command line; there the values are modelled with them (\<open>c_double\<close>), and
    a start-up that leaves one in a variable of the controller yields no controller state.
  \<^item> A cast \<^verbatim>\<open>(int) d\<close> of a double truncates towards zero (\<open>c_trunc\<close>); integer division
    \<^verbatim>\<open>/\<close> truncates towards zero (\<open>c_div\<close>).
  \<^item> Logging (\<^verbatim>\<open>daemon_log\<close>, \<^verbatim>\<open>socket_log\<close>, \<^verbatim>\<open>printf\<close>) and \<^verbatim>\<open>usleep\<close> are left out.
\<close>

definition c_trunc :: "real \<Rightarrow> int" where
  "c_trunc d = (if 0 \<le> d then \<lfloor>d\<rfloor> else \<lceil>d\<rceil>)"

definition c_div :: "int \<Rightarrow> int \<Rightarrow> int" where
  "c_div a b = sgn a * sgn b * (\<bar>a\<bar> div \<bar>b\<bar>)"

definition EXIT_SUCCESS :: int where
  "EXIT_SUCCESS = 0"

definition EXIT_FAILURE :: int where
  "EXIT_FAILURE = 1"

section \<open>EC transport: the two I/O ports\<close>

definition EC_SC :: "32 word" where
  "EC_SC = 0x66"

definition EC_DATA :: "32 word" where
  "EC_DATA = 0x62"

definition IBF :: nat where
  "IBF = 1"

definition OBF :: nat where
  "OBF = 0"

definition EC_SC_READ_CMD :: "32 word" where
  "EC_SC_READ_CMD = 0x80"

definition EC_REG_CPU_TEMP :: "32 word" where
  "EC_REG_CPU_TEMP = 0x07"

definition EC_REG_GPU_TEMP :: "32 word" where
  "EC_REG_GPU_TEMP = 0xCD"

definition EC_REG_FAN_DUTY :: "32 word" where
  "EC_REG_FAN_DUTY = 0xCE"

definition EC_REG_FAN_RPMS_HI :: "32 word" where
  "EC_REG_FAN_RPMS_HI = 0xD0"

definition EC_REG_FAN_RPMS_LO :: "32 word" where
  "EC_REG_FAN_RPMS_LO = 0xD1"

text \<open>
  The hardware is the environment of the program. \<open>inb_src w n p\<close> is the byte that the
  \<open>n\<close>-th \<^verbatim>\<open>inb\<close> of the run returns when it reads port \<open>p\<close>; \<open>inb_count\<close> counts the reads
  done so far; \<open>outb_log\<close> is the list of (value, port) pairs written by \<^verbatim>\<open>outb\<close>, oldest
  first.
\<close>

record ec_world =
  inb_src :: "nat \<Rightarrow> 32 word \<Rightarrow> 8 word"
  inb_count :: nat
  outb_log :: "(8 word \<times> 32 word) list"

definition inb :: "32 word \<Rightarrow> ec_world \<Rightarrow> 8 word \<times> ec_world" where
  "inb port w = (inb_src w (inb_count w) port, w\<lparr>inb_count := Suc (inb_count w)\<rparr>)"

definition outb :: "8 word \<Rightarrow> 32 word \<Rightarrow> ec_world \<Rightarrow> ec_world" where
  "outb v port w = w\<lparr>outb_log := outb_log w @ [(v, port)]\<rparr>"

text \<open>
  The loop of \<^verbatim>\<open>ec_io_wait\<close>:
  \<^verbatim>\<open>while ((((data >> flag) & 0x1) != value) && (i++ < 100)) { usleep(1000); data = inb(port); }\<close>
  The increment \<^verbatim>\<open>i++\<close> is evaluated only when the flag test is true, and also when the
  bound test then fails, so the loop leaves \<open>i = 101\<close> after 100 re-reads without success.
\<close>

function ec_io_wait_loop ::
  "32 word \<Rightarrow> nat \<Rightarrow> 8 word \<Rightarrow> 8 word \<Rightarrow> nat \<Rightarrow> ec_world \<Rightarrow> nat \<times> 8 word \<times> ec_world" where
  "ec_io_wait_loop port flag val data i w =
     (if (drop_bit flag data AND 1) \<noteq> val then
        (if i < 100
         then ec_io_wait_loop port flag val (fst (inb port w)) (Suc i) (snd (inb port w))
         else (Suc i, data, w))
      else (i, data, w))"
  by pat_completeness auto
termination
  by (relation "measure (\<lambda>(port, flag, val, data, i, w). 100 - i)") auto

declare ec_io_wait_loop.simps [simp del]

definition ec_io_wait :: "32 word \<Rightarrow> nat \<Rightarrow> 8 word \<Rightarrow> ec_world \<Rightarrow> int \<times> ec_world" where
  "ec_io_wait port flag val w =
     (let (data, w1) = inb port w;
          (i, data', w2) = ec_io_wait_loop port flag val data 0 w1
      in if i \<ge> 100 then (EXIT_FAILURE, w2) else (EXIT_SUCCESS, w2))"

definition ec_io_read :: "32 word \<Rightarrow> ec_world \<Rightarrow> 8 word \<times> ec_world" where
  "ec_io_read port w =
     (let (r1, w1) = ec_io_wait EC_SC IBF 0 w;
          w2 = outb (ucast EC_SC_READ_CMD) EC_SC w1;
          (r2, w3) = ec_io_wait EC_SC IBF 0 w2;
          w4 = outb (ucast port) EC_DATA w3;
          (r3, w5) = ec_io_wait EC_SC OBF 1 w4
      in inb EC_DATA w5)"

definition ec_io_do :: "32 word \<Rightarrow> 32 word \<Rightarrow> 8 word \<Rightarrow> ec_world \<Rightarrow> int \<times> ec_world" where
  "ec_io_do cmd port v w =
     (let (r1, w1) = ec_io_wait EC_SC IBF 0 w;
          w2 = outb (ucast cmd) EC_SC w1;
          (r2, w3) = ec_io_wait EC_SC IBF 0 w2;
          w4 = outb (ucast port) EC_DATA w3;
          (r3, w5) = ec_io_wait EC_SC IBF 0 w4;
          w6 = outb v EC_DATA w5
      in ec_io_wait EC_SC IBF 0 w6)"

section \<open>Sensor and actuator layer\<close>

definition calculate_fan_duty :: "int \<Rightarrow> int" where
  "calculate_fan_duty raw_duty = c_trunc (real_of_int raw_duty / 255 * 100)"

definition calculate_fan_rpms :: "int \<Rightarrow> int \<Rightarrow> int" where
  "calculate_fan_rpms raw_rpm_high raw_rpm_low =
     (let raw_rpm = push_bit 8 raw_rpm_high + raw_rpm_low
      in if raw_rpm > 0 then c_div 2156220 raw_rpm else 0)"

definition ec_query_cpu_temp :: "ec_world \<Rightarrow> int \<times> ec_world" where
  "ec_query_cpu_temp w = (let (v, w') = ec_io_read EC_REG_CPU_TEMP w in (uint v, w'))"

definition ec_query_gpu_temp :: "ec_world \<Rightarrow> int \<times> ec_world" where
  "ec_query_gpu_temp w = (let (v, w') = ec_io_read EC_REG_GPU_TEMP w in (uint v, w'))"

definition ec_query_fan_duty :: "ec_world \<Rightarrow> int \<times> ec_world" where
  "ec_query_fan_duty w =
     (let (raw_duty, w') = ec_io_read EC_REG_FAN_DUTY w
      in (calculate_fan_duty (uint raw_duty), w'))"

definition ec_query_fan_rpms :: "ec_world \<Rightarrow> int \<times> ec_world" where
  "ec_query_fan_rpms w =
     (let (raw_rpm_hi, w1) = ec_io_read EC_REG_FAN_RPMS_HI w;
          (raw_rpm_lo, w2) = ec_io_read EC_REG_FAN_RPMS_LO w1
      in (calculate_fan_rpms (uint raw_rpm_hi) (uint raw_rpm_lo), w2))"

definition ec_write_fan_duty :: "int \<Rightarrow> ec_world \<Rightarrow> int \<times> ec_world" where
  "ec_write_fan_duty duty_percentage w =
     (if duty_percentage < 1 \<or> duty_percentage > 100 then (EXIT_FAILURE, w)
      else
        (let v_d = real_of_int duty_percentage / 100 * 255;
             v_i = c_trunc v_d
         in ec_io_do 0x99 0x01 (word_of_int v_i) w))"

text \<open>An EC whose status port always reads 0 (input buffer free, no output pending).\<close>

definition quiet_ec :: ec_world where
  "quiet_ec = \<lparr>inb_src = (\<lambda>n p. 0), inb_count = 0, outb_log = []\<rparr>"

text \<open>An EC whose input-buffer-full flag never clears: every handshake times out.\<close>

definition stuck_ec :: ec_world where
  "stuck_ec = \<lparr>inb_src = (\<lambda>n p. 2), inb_count = 0, outb_log = []\<rparr>"

section \<open>Shared sample and controller state\<close>

text \<open>The structure behind \<^verbatim>\<open>share_info\<close>, shared by the worker and the socket server.\<close>

record share_info =
  exit :: int
  cpu_temp :: int
  gpu_temp :: int
  fan_duty :: int
  fan_rpms :: int
  auto_duty :: int
  auto_duty_val :: int
  manual_next_fan_duty :: int
  manual_prev_fan_duty :: int

definition daemon_init_share :: share_info where
  "daemon_init_share =
     \<lparr>exit = 0, cpu_temp = 0, gpu_temp = 0, fan_duty = 0, fan_rpms = 0, auto_duty = 1,
      auto_duty_val = 0, manual_next_fan_duty = 0, manual_prev_fan_duty = 0\<rparr>"

text \<open>
  The file-level variables of the controller. The first group exists in both programs; the
  last six (rapid learning) exist only in the indicator program and are never touched by
  the daemon's functions. The variables \<^verbatim>\<open>adaptive_oscillation_penalty\<close>,
  \<^verbatim>\<open>adaptive_overshoot_penalty\<close>, \<^verbatim>\<open>adaptive_settling_time\<close> and
  \<^verbatim>\<open>adaptive_cycle_start_time\<close> are only ever assigned 0 and never read; they are left out.
  The history index and size are array positions and are modelled as \<open>nat\<close>.
\<close>

record controller =
  target_temperature :: int
  pid_kp :: real
  pid_ki :: real
  pid_kd :: real
  pid_integral :: real
  pid_prev_error :: real
  pid_output_min :: real
  pid_output_max :: real
  pid_enabled :: int
  adaptive_pid_enabled :: int
  adaptive_learning_cycles :: int
  adaptive_performance_score :: real
  adaptive_prev_score :: real
  adaptive_cycle_count :: int
  adaptive_temp_history :: "real list"
  adaptive_temp_history_index :: nat
  adaptive_temp_history_size :: nat
  adaptive_kp_step :: real
  adaptive_ki_step :: real
  adaptive_kd_step :: real
  adaptive_tuning_interval :: int
  adaptive_target_performance :: real
  adaptive_rapid_learning_cycles :: int
  adaptive_rapid_learning_max :: int
  adaptive_rapid_step_multiplier :: real
  adaptive_steady_state_threshold :: real
  adaptive_consecutive_stable_cycles :: int
  adaptive_steady_state_cycles_required :: int

text \<open>The initialisers of the file-level variables.\<close>

definition controller_init :: controller where
  "controller_init =
     \<lparr>target_temperature = 65,
      pid_kp = 2.0, pid_ki = 0.1, pid_kd = 0.5,
      pid_integral = 0, pid_prev_error = 0,
      pid_output_min = 0, pid_output_max = 100,
      pid_enabled = 1,
      adaptive_pid_enabled = 1,
      adaptive_learning_cycles = 0,
      adaptive_performance_score = 0,
      adaptive_prev_score = 0,
      adaptive_cycle_count = 0,
      adaptive_temp_history = replicate 60 0,
      adaptive_temp_history_index = 0,
      adaptive_temp_history_size = 0,
      adaptive_kp_step = 0.1, adaptive_ki_step = 0.01, adaptive_kd_step = 0.05,
      adaptive_tuning_interval = 30,
      adaptive_target_performance = 0.8,
      adaptive_rapid_learning_cycles = 0,
      adaptive_rapid_learning_max = 10,
      adaptive_rapid_step_multiplier = 3.0,
      adaptive_steady_state_threshold = 0.05,
      adaptive_consecutive_stable_cycles = 0,
      adaptive_steady_state_cycles_required = 5\<rparr>"

section \<open>Adaptive tuner\<close>

definition adaptive_pid_add_temp_history :: "int \<Rightarrow> controller \<Rightarrow> controller" where
  "adaptive_pid_add_temp_history temp c =
     c\<lparr>adaptive_temp_history :=
          (adaptive_temp_history c)[adaptive_temp_history_index c := real_of_int temp],
       adaptive_temp_history_index := (adaptive_temp_history_index c + 1) mod 60,
       adaptive_temp_history_size :=
          (if adaptive_temp_history_size c < 60 then adaptive_temp_history_size c + 1
           else adaptive_temp_history_size c)\<rparr>"

text \<open>The two \<^verbatim>\<open>for\<close> loops of the oscillation measure run over the first \<open>size\<close> cells.\<close>

definition adaptive_pid_calculate_oscillation :: "controller \<Rightarrow> real" where
  "adaptive_pid_calculate_oscillation c =
     (if adaptive_temp_history_size c < 10 then 0
      else
        (let n = adaptive_temp_history_size c;
             cells = take n (adaptive_temp_history c);
             mean = foldl (\<lambda>acc x. acc + x) 0 cells / real n;
             variance = foldl (\<lambda>acc x. acc + (x - mean) * (x - mean)) 0 cells / real n
         in sqrt variance))"

definition adaptive_pid_calculate_performance_score :: "share_info \<Rightarrow> controller \<Rightarrow> real" where
  "adaptive_pid_calculate_performance_score sh c =
     (let temp = max (cpu_temp sh) (gpu_temp sh);
          error = \<bar>real_of_int temp - real_of_int (target_temperature c)\<bar>;
          oscillation = adaptive_pid_calculate_oscillation c;
          error_score0 = 1 - error / 50;
          error_score1 = (if error_score0 < 0 then 0 else error_score0);
          error_score = (if error_score1 > 1 then 1 else error_score1);
          oscillation_penalty0 = oscillation / 10;
          oscillation_penalty = (if oscillation_penalty0 > 1 then 1 else oscillation_penalty0);
          fan_efficiency = 1 - real_of_int (fan_duty sh) / 100;
          fan_score = (if error < 5 then fan_efficiency else 0)
      in error_score * 0.6 + (1 - oscillation_penalty) * 0.3 + fan_score * 0.1)"

text \<open>The pair of statements \<^verbatim>\<open>if (x < lo) x = lo; if (x > hi) x = hi;\<close>.\<close>

definition clamp_lo_hi :: "real \<Rightarrow> real \<Rightarrow> real \<Rightarrow> real" where
  "clamp_lo_hi lo hi x = (let x1 = (if x < lo then lo else x) in if x1 > hi then hi else x1)"

text \<open>
  The tuner of \<^verbatim>\<open>clevo-daemon.c\<close>. On a regression the three file-level step sizes are
  themselves multiplied by \<open>-0.8\<close>.
\<close>

definition adaptive_pid_tune_parameters :: "share_info \<Rightarrow> controller \<Rightarrow> controller" where
  "adaptive_pid_tune_parameters sh c =
     (let current_score = adaptive_pid_calculate_performance_score sh c;
          score_change = current_score - adaptive_prev_score c;
          c1 = (if score_change > 0.05 then c
                else if score_change < - 0.05 then
                  c\<lparr>adaptive_kp_step := adaptive_kp_step c * (- 0.8),
                    adaptive_ki_step := adaptive_ki_step c * (- 0.8),
                    adaptive_kd_step := adaptive_kd_step c * (- 0.8)\<rparr>
                else c);
          c2 = (if current_score < adaptive_target_performance c1
                then c1\<lparr>pid_kp := clamp_lo_hi 0.5 5.0 (pid_kp c1 + adaptive_kp_step c1)\<rparr>
                else c1);
          oscillation = adaptive_pid_calculate_oscillation c2;
          temp = max (cpu_temp sh) (gpu_temp sh);
          error = \<bar>real_of_int temp - real_of_int (target_temperature c2)\<bar>;
          c3 = (if oscillation > 3.0
                then c2\<lparr>pid_ki := pid_ki c2 - adaptive_ki_step c2,
                       pid_kd := pid_kd c2 + adaptive_kd_step c2\<rparr>
                else if error > 5.0 then c2\<lparr>pid_ki := pid_ki c2 + adaptive_ki_step c2\<rparr>
                else c2);
          c4 = c3\<lparr>pid_ki := clamp_lo_hi 0.01 0.5 (pid_ki c3),
                  pid_kd := clamp_lo_hi 0.1 2.0 (pid_kd c3)\<rparr>
      in c4\<lparr>adaptive_prev_score := current_score,
            adaptive_performance_score := current_score,
            adaptive_learning_cycles := adaptive_learning_cycles c4 + 1\<rparr>)"

text \<open>
  The tuner of the indicator program (second copy of \<^verbatim>\<open>adaptive_pid_tune_parameters\<close>, the
  one with learning phases). The steps used in a pass are the locals
  \<^verbatim>\<open>current_kp_step\<close>, \<^verbatim>\<open>current_ki_step\<close>, \<^verbatim>\<open>current_kd_step\<close>; on a regression it is these
  locals that are multiplied by \<open>-0.8\<close>.
\<close>

definition indicator_adaptive_pid_tune_parameters :: "share_info \<Rightarrow> controller \<Rightarrow> controller" where
  "indicator_adaptive_pid_tune_parameters sh c =
     (let current_score = adaptive_pid_calculate_performance_score sh c;
          score_change = current_score - adaptive_prev_score c;
          rapid_learning = (adaptive_rapid_learning_cycles c < adaptive_rapid_learning_max c);
          approaching_steady_state =
            (adaptive_consecutive_stable_cycles c \<ge> adaptive_steady_state_cycles_required c);
          step_multiplier =
            (if rapid_learning then adaptive_rapid_step_multiplier c
             else if approaching_steady_state then 0.3 else 1.0);
          current_kp_step0 = adaptive_kp_step c * step_multiplier;
          current_ki_step0 = adaptive_ki_step c * step_multiplier;
          current_kd_step0 = adaptive_kd_step c * step_multiplier;
          c1 = (if \<bar>score_change\<bar> < adaptive_steady_state_threshold c
                then c\<lparr>adaptive_consecutive_stable_cycles :=
                         adaptive_consecutive_stable_cycles c + 1\<rparr>
                else c\<lparr>adaptive_consecutive_stable_cycles := 0\<rparr>);
          reversed = (\<not> score_change > 0.05 \<and> score_change < - 0.05);
          current_kp_step = (if reversed then current_kp_step0 * (- 0.8) else current_kp_step0);
          current_ki_step = (if reversed then current_ki_step0 * (- 0.8) else current_ki_step0);
          current_kd_step = (if reversed then current_kd_step0 * (- 0.8) else current_kd_step0);
          c2 = (if current_score < adaptive_target_performance c1
                then c1\<lparr>pid_kp := clamp_lo_hi 0.5 5.0 (pid_kp c1 + current_kp_step)\<rparr>
                else c1);
          oscillation = adaptive_pid_calculate_oscillation c2;
          temp = max (cpu_temp sh) (gpu_temp sh);
          error = \<bar>real_of_int temp - real_of_int (target_temperature c2)\<bar>;
          c3 = (if oscillation > 3.0
                then c2\<lparr>pid_ki := pid_ki c2 - current_ki_step,
                       pid_kd := pid_kd c2 + current_kd_step\<rparr>
                else if error > 5.0 then c2\<lparr>pid_ki := pid_ki c2 + current_ki_step\<rparr>
                else c2);
          c4 = c3\<lparr>pid_ki := clamp_lo_hi 0.01 0.5 (pid_ki c3),
                  pid_kd := clamp_lo_hi 0.1 2.0 (pid_kd c3)\<rparr>;
          c5 = c4\<lparr>adaptive_prev_score := current_score,
                  adaptive_performance_score := current_score,
                  adaptive_learning_cycles := adaptive_learning_cycles c4 + 1\<rparr>
      in if rapid_learning
         then c5\<lparr>adaptive_rapid_learning_cycles := adaptive_rapid_learning_cycles c5 + 1\<rparr>
         else c5)"

definition adaptive_pid_reset :: "controller \<Rightarrow> controller" where
  "adaptive_pid_reset c =
     c\<lparr>adaptive_learning_cycles := 0,
       adaptive_performance_score := 0,
       adaptive_prev_score := 0,
       adaptive_cycle_count := 0,
       adaptive_temp_history_index := 0,
       adaptive_temp_history_size := 0,
       adaptive_kp_step := 0.1,
       adaptive_ki_step := 0.01,
       adaptive_kd_step := 0.05\<rparr>"

definition pid_reset :: "controller \<Rightarrow> controller" where
  "pid_reset c =
     (let c1 = c\<lparr>pid_integral := 0, pid_prev_error := 0\<rparr>
      in if adaptive_pid_enabled c1 \<noteq> 0 then adaptive_pid_reset c1 else c1)"

text \<open>
  The indicator's reset also clears the two rapid-learning counters. (Its \<^verbatim>\<open>pid_reset\<close>
  clears the temperature-trend variables of the status display as well; they are not part
  of the controller and are left out.)
\<close>

definition indicator_adaptive_pid_reset :: "controller \<Rightarrow> controller" where
  "indicator_adaptive_pid_reset c =
     (adaptive_pid_reset c)\<lparr>adaptive_rapid_learning_cycles := 0,
                            adaptive_consecutive_stable_cycles := 0\<rparr>"

definition indicator_pid_reset :: "controller \<Rightarrow> controller" where
  "indicator_pid_reset c =
     (let c1 = c\<lparr>pid_integral := 0, pid_prev_error := 0\<rparr>
      in if adaptive_pid_enabled c1 \<noteq> 0 then indicator_adaptive_pid_reset c1 else c1)"

section \<open>Auto-duty computation\<close>

text \<open>
  The first block of the PID branch of \<^verbatim>\<open>ec_auto_duty_adjust\<close>: record the temperature,
  count the cycle, and run the tuner when the count has reached the tuning interval. The
  tuner is a parameter because the two programs differ in nothing else here.
\<close>

definition adaptive_phase ::
  "(share_info \<Rightarrow> controller \<Rightarrow> controller) \<Rightarrow> share_info \<Rightarrow> controller \<Rightarrow> controller" where
  "adaptive_phase tune sh c =
     (if adaptive_pid_enabled c \<noteq> 0 then
        (let temp = max (cpu_temp sh) (gpu_temp sh);
             c1 = adaptive_pid_add_temp_history temp c;
             c2 = c1\<lparr>adaptive_cycle_count := adaptive_cycle_count c1 + 1\<rparr>
         in if adaptive_cycle_count c2 \<ge> adaptive_tuning_interval c2
            then (tune sh c2)\<lparr>adaptive_cycle_count := 0\<rparr>
            else c2)
      else c)"

text \<open>
  The second block: the PID terms, the anti-windup clamp of the integral, the clamp of the
  output and the store of the error. The result is the clamped \<^verbatim>\<open>output\<close> and the new
  state.
\<close>

definition pid_update :: "real \<Rightarrow> controller \<Rightarrow> real \<times> controller" where
  "pid_update error c =
     (let proportional = pid_kp c * error;
          i0 = pid_integral c + error;
          i1 = (if i0 > 100 then 100 else i0);
          i2 = (if i1 < - 100 then - 100 else i1);
          integral = pid_ki c * i2;
          derivative = pid_kd c * (error - pid_prev_error c);
          output0 = proportional + integral + derivative;
          output1 = (if output0 > pid_output_max c then pid_output_max c else output0);
          output = (if output1 < pid_output_min c then pid_output_min c else output1)
      in (output, c\<lparr>pid_integral := i2, pid_prev_error := error\<rparr>))"

definition auto_duty_adjust_with ::
  "(share_info \<Rightarrow> controller \<Rightarrow> controller) \<Rightarrow> share_info \<Rightarrow> controller \<Rightarrow> int \<times> controller" where
  "auto_duty_adjust_with tune sh c =
     (if pid_enabled c = 0 then
        (let temp = max (cpu_temp sh) (gpu_temp sh);
             duty = fan_duty sh;
             new_duty0 = (if temp \<ge> target_temperature c then max (duty + 2) 10
                          else max (duty - 2) 0);
             new_duty = (if new_duty0 > 100 then 100 else if new_duty0 < 0 then 0 else new_duty0)
         in (new_duty, c))
      else
        (let temp = max (cpu_temp sh) (gpu_temp sh);
             setpoint = real_of_int (target_temperature c);
             process_variable = real_of_int temp;
             error = process_variable - setpoint;
             c1 = adaptive_phase tune sh c;
             (output, c2) = pid_update error c1;
             new_duty0 = c_trunc (output + 0.5);
             new_duty1 = (if new_duty0 > 100 then 100 else new_duty0);
             new_duty = (if new_duty1 < 0 then 0 else new_duty1)
         in (new_duty, c2)))"

text \<open>\<^verbatim>\<open>ec_auto_duty_adjust\<close> of \<^verbatim>\<open>clevo-daemon.c\<close>.\<close>

definition ec_auto_duty_adjust :: "share_info \<Rightarrow> controller \<Rightarrow> int \<times> controller" where
  "ec_auto_duty_adjust = auto_duty_adjust_with adaptive_pid_tune_parameters"

text \<open>\<^verbatim>\<open>ec_auto_duty_adjust\<close> of the indicator program.\<close>

definition indicator_ec_auto_duty_adjust :: "share_info \<Rightarrow> controller \<Rightarrow> int \<times> controller" where
  "indicator_ec_auto_duty_adjust = auto_duty_adjust_with indicator_adaptive_pid_tune_parameters"

text \<open>The clamped \<^verbatim>\<open>output\<close> local of the update that \<open>ec_auto_duty_adjust sh c\<close> performs.\<close>

definition pid_clamped_output :: "share_info \<Rightarrow> controller \<Rightarrow> real" where
  "pid_clamped_output sh c =
     fst (pid_update
            (real_of_int (max (cpu_temp sh) (gpu_temp sh)) - real_of_int (target_temperature c))
            (adaptive_phase adaptive_pid_tune_parameters sh c))"

text \<open>The three ranges that the tuner clamps the gains to.\<close>

definition gains_in_range :: "controller \<Rightarrow> bool" where
  "gains_in_range c =
     (0.5 \<le> pid_kp c \<and> pid_kp c \<le> 5.0 \<and> 0.01 \<le> pid_ki c \<and> pid_ki c \<le> 0.5 \<and>
      0.1 \<le> pid_kd c \<and> pid_kd c \<le> 2.0)"

text \<open>A run of updates, one per sample, threading the controller state.\<close>

fun auto_duty_run_with ::
  "(share_info \<Rightarrow> controller \<Rightarrow> controller) \<Rightarrow> controller \<Rightarrow> share_info list \<Rightarrow> controller" where
  "auto_duty_run_with tune c [] = c"
| "auto_duty_run_with tune c (sh # shs) =
     auto_duty_run_with tune (snd (auto_duty_adjust_with tune sh c)) shs"

definition auto_duty_run :: "controller \<Rightarrow> share_info list \<Rightarrow> controller" where
  "auto_duty_run = auto_duty_run_with adaptive_pid_tune_parameters"

definition indicator_auto_duty_run :: "controller \<Rightarrow> share_info list \<Rightarrow> controller" where
  "indicator_auto_duty_run = auto_duty_run_with indicator_adaptive_pid_tune_parameters"

section \<open>The worker tick\<close>

record daemon =
  share :: share_info
  ctl :: controller
  ec :: ec_world

text \<open>
  What the attempt to read the 256-byte register image found: the file could not be opened
  (at the probe or at the read), or \<^verbatim>\<open>read\<close> returned the given length (\<open>-1\<close> on error)
  with the given buffer.
\<close>

datatype sysfs_outcome = Sysfs_unavailable | Sysfs_read int "nat \<Rightarrow> 8 word"

text \<open>First half of \<^verbatim>\<open>daemon_ec_worker\<close>: the sample is read, from the image or the ports.\<close>

definition daemon_ec_worker_read :: "sysfs_outcome \<Rightarrow> daemon \<Rightarrow> daemon" where
  "daemon_ec_worker_read sysfs d =
     (case (case sysfs of
              Sysfs_unavailable \<Rightarrow> None
            | Sysfs_read len buf \<Rightarrow> (if len = 0x100 then Some buf else None)) of
        Some buf \<Rightarrow>
          d\<lparr>share := (share d)
               \<lparr>cpu_temp := uint (buf (unat EC_REG_CPU_TEMP)),
                gpu_temp := uint (buf (unat EC_REG_GPU_TEMP)),
                fan_duty := calculate_fan_duty (uint (buf (unat EC_REG_FAN_DUTY))),
                fan_rpms := calculate_fan_rpms (uint (buf (unat EC_REG_FAN_RPMS_HI)))
                                               (uint (buf (unat EC_REG_FAN_RPMS_LO)))\<rparr>\<rparr>
      | None \<Rightarrow>
          (let (cpu, w1) = ec_query_cpu_temp (ec d);
               (gpu, w2) = ec_query_gpu_temp w1;
               (duty, w3) = ec_query_fan_duty w2;
               (rpms, w4) = ec_query_fan_rpms w3
           in d\<lparr>share := (share d)\<lparr>cpu_temp := cpu, gpu_temp := gpu,
                                    fan_duty := duty, fan_rpms := rpms\<rparr>,
                ec := w4\<rparr>))"

text \<open>
  Second half of \<^verbatim>\<open>daemon_ec_worker\<close> (the block under \<^verbatim>\<open>// auto EC control\<close>). The value
  returned by \<^verbatim>\<open>ec_write_fan_duty\<close> is only logged.
\<close>

definition daemon_ec_worker_auto :: "daemon \<Rightarrow> daemon" where
  "daemon_ec_worker_auto d =
     (if auto_duty (share d) = 1 then
        (let (next_duty, c') = ec_auto_duty_adjust (share d) (ctl d);
             d1 = d\<lparr>ctl := c'\<rparr>
         in if next_duty \<noteq> 0 \<and> next_duty \<noteq> auto_duty_val (share d1) then
              (let (write_result, w') = ec_write_fan_duty next_duty (ec d1)
               in d1\<lparr>ec := w', share := (share d1)\<lparr>auto_duty_val := next_duty\<rparr>\<rparr>)
            else d1)
      else d)"

definition daemon_ec_worker :: "sysfs_outcome \<Rightarrow> daemon \<Rightarrow> daemon" where
  "daemon_ec_worker sysfs d = daemon_ec_worker_auto (daemon_ec_worker_read sysfs d)"

definition daemon_init :: "ec_world \<Rightarrow> daemon" where
  "daemon_init w = \<lparr>share = daemon_init_share, ctl = controller_init, ec = w\<rparr>"

section \<open>Socket server\<close>

subsection \<open>The pieces of the C library that the handler uses\<close>

definition BUFFER_SIZE :: nat where
  "BUFFER_SIZE = 1024"

text \<open>\<^verbatim>\<open>snprintf(response, sizeof(response), ...)\<close> keeps at most \<open>BUFFER_SIZE - 1\<close> characters.\<close>

definition snprintf_response :: "string \<Rightarrow> string" where
  "snprintf_response s = take (BUFFER_SIZE - 1) s"

definition isspace :: "char \<Rightarrow> bool" where
  "isspace ch = (ch \<in> set [CHR '' '', CHR 0x09, CHR 0x0A, CHR 0x0B, CHR 0x0C, CHR 0x0D])"

definition isdigit :: "char \<Rightarrow> bool" where
  "isdigit ch = (48 \<le> (of_char ch :: nat) \<and> (of_char ch :: nat) \<le> 57)"

definition digit_val :: "char \<Rightarrow> nat" where
  "digit_val ch = of_char ch - 48"

definition digits_value :: "string \<Rightarrow> nat" where
  "digits_value ds = foldl (\<lambda>acc ch. 10 * acc + digit_val ch) 0 ds"

text \<open>
  The value that the conversion \<^verbatim>\<open>%d\<close> stores for a decimal number \<open>n\<close>. The C standard
  leaves a number outside \<^verbatim>\<open>int\<close> undefined; the model follows the GNU C library on a
  64-bit Linux, where the digits go through \<^verbatim>\<open>strtol\<close> (which saturates at the bounds of
  \<^verbatim>\<open>long\<close>) and the result is cast to \<^verbatim>\<open>int\<close>.
\<close>

definition scanf_store_int :: "int \<Rightarrow> int" where
  "scanf_store_int n = sint (word_of_int (max (- (2 ^ 63)) (min (2 ^ 63 - 1) n)) :: 32 word)"

text \<open>
  The directive \<^verbatim>\<open>" %d"\<close>: white space is skipped, then an optional sign and at least one
  decimal digit are read. \<open>scan_number\<close> is the number that the matched text denotes,
  \<open>None\<close> a matching failure; \<open>scan_d\<close> is what the conversion stores for it.
\<close>

definition scan_number :: "string \<Rightarrow> int option" where
  "scan_number s =
     (let s1 = dropWhile isspace s;
          neg = (s1 \<noteq> [] \<and> hd s1 = CHR ''-'');
          s2 = (if s1 \<noteq> [] \<and> (hd s1 = CHR ''-'' \<or> hd s1 = CHR ''+'') then tl s1 else s1);
          ds = takeWhile isdigit s2
      in if ds = [] then None
         else Some (if neg then - int (digits_value ds) else int (digits_value ds)))"

definition scan_d :: "string \<Rightarrow> int option" where
  "scan_d s = map_option scanf_store_int (scan_number s)"

text \<open>
  \<^verbatim>\<open>sscanf(command, "<lit> %d", &x) == 1\<close>: \<open>Some x\<close> when the call returns 1, \<open>None\<close> when it
  returns anything else. \<open>sscanf_lit_number\<close> is the number written in the text where the
  call matches one, before the conversion stores it.
\<close>

definition sscanf_lit_number :: "string \<Rightarrow> string \<Rightarrow> int option" where
  "sscanf_lit_number lit s =
     (if take (length lit) s = lit then scan_number (drop (length lit) s) else None)"

definition sscanf_lit_d :: "string \<Rightarrow> string \<Rightarrow> int option" where
  "sscanf_lit_d lit s =
     (if take (length lit) s = lit then scan_d (drop (length lit) s) else None)"

fun string_of_nat :: "nat \<Rightarrow> string" where
  "string_of_nat n =
     (if n < 10 then [char_of (48 + n)]
      else string_of_nat (n div 10) @ [char_of (48 + n mod 10)])"

declare string_of_nat.simps [simp del]

text \<open>The conversion \<^verbatim>\<open>%d\<close> of \<^verbatim>\<open>printf\<close>.\<close>

definition printf_d :: "int \<Rightarrow> string" where
  "printf_d i = (if i < 0 then CHR ''-'' # string_of_nat (nat (- i)) else string_of_nat (nat i))"

text \<open>The two bytes of the degree sign in UTF-8, as the source file has it in its literals.\<close>

definition degree_sign :: string where
  "degree_sign = [CHR 0xC2, CHR 0xB0]"

subsection \<open>The command handler\<close>

text \<open>
  \<open>command\<close> is a C string: it holds no NUL. \<^verbatim>\<open>strncmp(command, lit, n) == 0\<close> is then
  \<open>take n command = take n lit\<close>; note that the test for \<^verbatim>\<open>SET_TARGET_TEMP\<close> compares 14
  characters of a 15-character literal. The handler has the shared sample only: the target
  temperature is a file-level variable of \<^verbatim>\<open>clevo-daemon.c\<close>, and the source says so
  (\<^verbatim>\<open>For now, we'll just acknowledge the command\<close>).
\<close>

definition handle_client_command :: "share_info \<Rightarrow> string \<Rightarrow> share_info \<times> string" where
  "handle_client_command sh command =
     (if take 6 command = ''STATUS'' then
        (sh, snprintf_response
               (''CPU:'' @ printf_d (cpu_temp sh) @ '' GPU:'' @ printf_d (gpu_temp sh) @
                '' FAN_DUTY:'' @ printf_d (fan_duty sh) @ '' FAN_RPM:'' @ printf_d (fan_rpms sh) @
                '' AUTO:'' @ printf_d (auto_duty sh)))
      else if take 7 command = ''SET_FAN'' then
        (case sscanf_lit_d ''SET_FAN'' command of
           Some duty \<Rightarrow>
             (if duty \<ge> 1 \<and> duty \<le> 100
              then (sh\<lparr>auto_duty := 0, manual_next_fan_duty := duty\<rparr>,
                    snprintf_response (''OK: Fan set to '' @ printf_d duty @ ''%''))
              else (sh, snprintf_response ''ERROR: Invalid duty cycle (must be 1-100)''))
         | None \<Rightarrow> (sh, snprintf_response ''ERROR: Invalid SET_FAN command''))
      else if command = ''SET_AUTO'' then
        (sh\<lparr>auto_duty := 1, manual_next_fan_duty := 0\<rparr>,
         snprintf_response ''OK: Auto mode enabled'')
      else if take 14 command = take 14 ''SET_TARGET_TEMP'' then
        (case sscanf_lit_d ''SET_TARGET_TEMP'' command of
           Some temp \<Rightarrow>
             (if temp \<ge> 40 \<and> temp \<le> 100
              then (sh, snprintf_response
                          (''OK: Target temperature set to '' @ printf_d temp @ degree_sign @ ''C''))
              else (sh, snprintf_response
                          (''ERROR: Invalid target temperature (must be 40-100'' @ degree_sign @
                           ''C)'')))
         | None \<Rightarrow> (sh, snprintf_response ''ERROR: Invalid SET_TARGET_TEMP command''))
      else if command = ''GET_TEMP'' then
        (sh, snprintf_response
               (''CPU:'' @ printf_d (cpu_temp sh) @ '' GPU:'' @ printf_d (gpu_temp sh)))
      else if command = ''GET_FAN'' then
        (sh, snprintf_response
               (''DUTY:'' @ printf_d (fan_duty sh) @ '' RPM:'' @ printf_d (fan_rpms sh) @
                '' AUTO:'' @ printf_d (auto_duty sh)))
      else
        (sh, snprintf_response (''ERROR: Unknown command '' @ [CHR 0x27] @ command @ [CHR 0x27])))"

text \<open>
  One accepted connection of \<^verbatim>\<open>socket_server_thread\<close>: \<open>received\<close> is what \<^verbatim>\<open>recv\<close>
  delivered (at most \<open>BUFFER_SIZE - 1\<close> bytes); nothing is answered when it is empty. The
  buffer is terminated after the received bytes, so the command ends at the first NUL.
\<close>

definition socket_server_request :: "string \<Rightarrow> share_info \<Rightarrow> share_info \<times> string option" where
  "socket_server_request received sh =
     (let buffer = take (BUFFER_SIZE - 1) received
      in if length buffer > 0
         then (let (sh', response) = handle_client_command sh (takeWhile (\<lambda>ch. ch \<noteq> CHR 0x00) buffer)
               in (sh', Some response))
         else (sh, None))"

text \<open>The same request seen from the whole daemon process.\<close>

definition daemon_request :: "string \<Rightarrow> daemon \<Rightarrow> daemon \<times> string option" where
  "daemon_request received d =
     (let (sh', response) = socket_server_request received (share d)
      in (d\<lparr>share := sh'\<rparr>, response))"

section \<open>Start-up and status loop of the indicator program\<close>

subsection \<open>Doubles as \<^verbatim>\<open>atof\<close> returns them\<close>

text \<open>
  The values of a C \<^verbatim>\<open>double\<close> that \<^verbatim>\<open>atof\<close> can return: a number, one of the two infinities
  (for \<^verbatim>\<open>inf\<close> and on overflow), or NaN (for \<^verbatim>\<open>nan\<close>). \<open>double_less\<close> is the operator \<^verbatim>\<open><\<close>:
  a comparison with NaN is false.
\<close>

datatype c_double = Num real | PInf | MInf | NaN

fun double_less :: "c_double \<Rightarrow> c_double \<Rightarrow> bool" where
  "double_less (Num a) (Num b) = (a < b)"
| "double_less (Num a) PInf = True"
| "double_less (Num a) MInf = False"
| "double_less (Num a) NaN = False"
| "double_less PInf y = False"
| "double_less MInf (Num b) = True"
| "double_less MInf PInf = True"
| "double_less MInf MInf = False"
| "double_less MInf NaN = False"
| "double_less NaN y = False"

text \<open>The pair of statements \<^verbatim>\<open>if (x < lo) x = lo; if (x > hi) x = hi;\<close> on a double.\<close>

definition clamp_double :: "real \<Rightarrow> real \<Rightarrow> c_double \<Rightarrow> c_double" where
  "clamp_double lo hi x =
     (let x1 = (if double_less x (Num lo) then Num lo else x)
      in if double_less (Num hi) x1 then Num hi else x1)"

definition clamp_int :: "int \<Rightarrow> int \<Rightarrow> int \<Rightarrow> int" where
  "clamp_int lo hi x = (let x1 = (if x < lo then lo else x) in if x1 > hi then hi else x1)"

subsection \<open>The command line\<close>

text \<open>
  The variables that \<^verbatim>\<open>parse_command_line\<close> assigns. The \<^verbatim>\<open>double\<close> variables that receive a
  value of \<^verbatim>\<open>atof\<close> are held as \<open>c_double\<close> while the command line is parsed; all other
  variables of the controller are in \<open>s_controller\<close> (whose own fields for these eight
  variables are not used before \<open>controller_of_startup\<close> fills them in).
\<close>

record startup =
  s_debug_mode :: int
  s_status_mode :: int
  s_status_interval :: c_double
  s_temp_output_interval :: int
  s_pid_kp :: c_double
  s_pid_ki :: c_double
  s_pid_kd :: c_double
  s_pid_output_min :: c_double
  s_pid_output_max :: c_double
  s_adaptive_target_performance :: c_double
  s_adaptive_rapid_step_multiplier :: c_double
  s_adaptive_steady_state_threshold :: c_double
  s_controller :: controller

text \<open>The initialisers of the file-level variables.\<close>

definition startup_init :: startup where
  "startup_init =
     \<lparr>s_debug_mode = 0, s_status_mode = 0, s_status_interval = Num 2.0,
      s_temp_output_interval = 30,
      s_pid_kp = Num 2.0, s_pid_ki = Num 0.1, s_pid_kd = Num 0.5,
      s_pid_output_min = Num 0, s_pid_output_max = Num 100,
      s_adaptive_target_performance = Num 0.8,
      s_adaptive_rapid_step_multiplier = Num 3.0,
      s_adaptive_steady_state_threshold = Num 0.05,
      s_controller = controller_init\<rparr>"

text \<open>
  \<^verbatim>\<open>atof\<close> and \<^verbatim>\<open>atoi\<close> belong to the C library and are parameters. Every option that
  takes a value has the same shape in the source: with a next argument the variable is
  assigned (and clamped where the source clamps) and the argument is skipped; without one
  the program exits. \<open>set_option\<close> is the assignment. The three gains and the two output
  bounds are stored as \<^verbatim>\<open>atof\<close> returns them.
\<close>

definition value_options :: "string list" where
  "value_options =
     [''--interval'', ''--target-temp'', ''--temp-output-interval'', ''--pid-kp'', ''--pid-ki'',
      ''--pid-kd'', ''--pid-output-min'', ''--pid-output-max'', ''--pid-enabled'',
      ''--adaptive-pid'', ''--adaptive-tuning-interval'', ''--adaptive-target-performance'',
      ''--adaptive-rapid-cycles'', ''--adaptive-rapid-multiplier'',
      ''--adaptive-steady-threshold'', ''--adaptive-steady-cycles'']"

definition set_option ::
  "(string \<Rightarrow> c_double) \<Rightarrow> (string \<Rightarrow> int) \<Rightarrow> string \<Rightarrow> string \<Rightarrow> startup \<Rightarrow> startup" where
  "set_option atof atoi opt v st =
     (if opt = ''--interval'' then st\<lparr>s_status_interval := clamp_double 0.1 60.0 (atof v)\<rparr>
      else if opt = ''--target-temp''
        then st\<lparr>s_controller := (s_controller st)\<lparr>target_temperature := clamp_int 40 100 (atoi v)\<rparr>\<rparr>
      else if opt = ''--temp-output-interval''
        then st\<lparr>s_temp_output_interval := clamp_int 5 300 (atoi v)\<rparr>
      else if opt = ''--pid-kp'' then st\<lparr>s_pid_kp := atof v\<rparr>
      else if opt = ''--pid-ki'' then st\<lparr>s_pid_ki := atof v\<rparr>
      else if opt = ''--pid-kd'' then st\<lparr>s_pid_kd := atof v\<rparr>
      else if opt = ''--pid-output-min'' then st\<lparr>s_pid_output_min := atof v\<rparr>
      else if opt = ''--pid-output-max'' then st\<lparr>s_pid_output_max := atof v\<rparr>
      else if opt = ''--pid-enabled''
        then st\<lparr>s_controller := (s_controller st)\<lparr>pid_enabled := atoi v\<rparr>\<rparr>
      else if opt = ''--adaptive-pid''
        then st\<lparr>s_controller := (s_controller st)\<lparr>adaptive_pid_enabled := atoi v\<rparr>\<rparr>
      else if opt = ''--adaptive-tuning-interval''
        then st\<lparr>s_controller :=
                  (s_controller st)\<lparr>adaptive_tuning_interval := clamp_int 10 300 (atoi v)\<rparr>\<rparr>
      else if opt = ''--adaptive-target-performance''
        then st\<lparr>s_adaptive_target_performance := clamp_double 0.1 1.0 (atof v)\<rparr>
      else if opt = ''--adaptive-rapid-cycles''
        then st\<lparr>s_controller :=
                  (s_controller st)\<lparr>adaptive_rapid_learning_max := clamp_int 1 50 (atoi v)\<rparr>\<rparr>
      else if opt = ''--adaptive-rapid-multiplier''
        then st\<lparr>s_adaptive_rapid_step_multiplier := clamp_double 1.0 10.0 (atof v)\<rparr>
      else if opt = ''--adaptive-steady-threshold''
        then st\<lparr>s_adaptive_steady_state_threshold := clamp_double 0.01 0.2 (atof v)\<rparr>
      else if opt = ''--adaptive-steady-cycles''
        then st\<lparr>s_controller :=
                  (s_controller st)\<lparr>adaptive_steady_state_cycles_required :=
                                      clamp_int 1 20 (atoi v)\<rparr>\<rparr>
      else st)"

text \<open>
  The loop over \<^verbatim>\<open>argv[1..]\<close>. \<open>None\<close> is a call of \<^verbatim>\<open>exit\<close>. \<^verbatim>\<open>--pid-reset\<close> skips the
  argument after it, whatever it is. An argument that is no option is passed over.
\<close>

fun parse_arguments ::
  "(string \<Rightarrow> c_double) \<Rightarrow> (string \<Rightarrow> int) \<Rightarrow> string list \<Rightarrow> startup \<Rightarrow> startup option" where
  "parse_arguments atof atoi [] st = Some st"
| "parse_arguments atof atoi (a # rest) st =
     (if a = ''--debug'' then parse_arguments atof atoi rest (st\<lparr>s_debug_mode := 1\<rparr>)
      else if a = ''--status'' then parse_arguments atof atoi rest (st\<lparr>s_status_mode := 1\<rparr>)
      else if a \<in> set value_options then
        (case rest of
           [] \<Rightarrow> None
         | v # rest' \<Rightarrow> parse_arguments atof atoi rest' (set_option atof atoi a v st))
      else if a = ''--pid-reset''
        then parse_arguments atof atoi (drop 1 rest)
               (st\<lparr>s_controller := indicator_pid_reset (s_controller st)\<rparr>)
      else if a = ''-?'' \<or> a = ''--help'' then None
      else parse_arguments atof atoi rest st)"

definition indicator_parse_command_line ::
  "(string \<Rightarrow> c_double) \<Rightarrow> (string \<Rightarrow> int) \<Rightarrow> string list \<Rightarrow> startup option" where
  "indicator_parse_command_line atof atoi argv = parse_arguments atof atoi (drop 1 argv) startup_init"

text \<open>
  The controller state that the variables amount to after parsing: \<open>None\<close> when one of the
  eight holds an infinity or a NaN, which no state of the controller model stands for.
\<close>

definition controller_of_startup :: "startup \<Rightarrow> controller option" where
  "controller_of_startup st =
     (case (s_pid_kp st, s_pid_ki st, s_pid_kd st, s_pid_output_min st, s_pid_output_max st,
            s_adaptive_target_performance st, s_adaptive_rapid_step_multiplier st,
            s_adaptive_steady_state_threshold st) of
        (Num kp, Num ki, Num kd, Num omin, Num omax, Num perf, Num mult, Num thr) \<Rightarrow>
          Some ((s_controller st)
                  \<lparr>pid_kp := kp, pid_ki := ki, pid_kd := kd,
                   pid_output_min := omin, pid_output_max := omax,
                   adaptive_target_performance := perf,
                   adaptive_rapid_step_multiplier := mult,
                   adaptive_steady_state_threshold := thr\<rparr>)
      | _ \<Rightarrow> None)"

subsection \<open>\<^verbatim>\<open>main\<close>\<close>

text \<open>
  What \<^verbatim>\<open>main\<close> of the indicator program goes on to do. \<open>startup_ok\<close> says that no other
  instance runs and that \<^verbatim>\<open>setup_privileges\<close> and \<^verbatim>\<open>ec_init\<close> succeed; \<open>display\<close> that the
  environment variable \<^verbatim>\<open>DISPLAY\<close> is set and not empty. After the options, the first
  argument that does not begin with \<^verbatim>\<open>-\<close> (the value of an option included) is taken as the
  fan-duty argument, unless \<^verbatim>\<open>--status\<close> was given: the status loop is entered before that
  search.
\<close>

datatype indicator_mode =
  Exits
  | Dump_fan
  | Test_fan int
  | Status_loop "controller option"
  | Indicator_worker "controller option"

definition indicator_main ::
  "(string \<Rightarrow> c_double) \<Rightarrow> (string \<Rightarrow> int) \<Rightarrow> bool \<Rightarrow> bool \<Rightarrow> string list \<Rightarrow> indicator_mode" where
  "indicator_main atof atoi startup_ok display argv =
     (case indicator_parse_command_line atof atoi argv of
        None \<Rightarrow> Exits
      | Some st \<Rightarrow>
          if \<not> startup_ok then Exits
          else if s_status_mode st \<noteq> 0 then Status_loop (controller_of_startup st)
          else
            (case filter (\<lambda>a. take 1 a \<noteq> ''-'') (drop 1 argv) of
               [] \<Rightarrow> if display then Indicator_worker (controller_of_startup st) else Dump_fan
             | a # others \<Rightarrow>
                 (let val = atoi a
                  in if val < 40 \<or> val > 100 then Exits else Test_fan val)))"

subsection \<open>The status loop\<close>

text \<open>\<^verbatim>\<open>main_init_share\<close> of the indicator program.\<close>

definition main_init_share :: share_info where
  "main_init_share =
     \<lparr>exit = 0, cpu_temp = 0, gpu_temp = 0, fan_duty = 0, fan_rpms = 0, auto_duty = 1,
      auto_duty_val = 0, manual_next_fan_duty = 0, manual_prev_fan_duty = 0\<rparr>"

text \<open>
  One pass of the loop, \<^verbatim>\<open>status_display_update_with_control\<close>, on the shared structure and
  the controller. The EC is not part of this model: \<open>readings\<close> carries what the four
  queries return in its fields \<open>cpu_temp\<close>, \<open>gpu_temp\<close>, \<open>fan_duty\<close> and \<open>fan_rpms\<close>, and the
  write of the new duty, whose result is only printed, is not recorded. The
  temperature-trend variables and the printing are left out.
\<close>

definition status_display_update_with_control ::
  "share_info \<Rightarrow> share_info \<times> controller \<Rightarrow> share_info \<times> controller" where
  "status_display_update_with_control readings st =
     (let sh = (fst st)\<lparr>cpu_temp := cpu_temp readings, gpu_temp := gpu_temp readings,
                        fan_duty := fan_duty readings, fan_rpms := fan_rpms readings\<rparr>;
          c = snd st
      in if auto_duty sh = 1 then
           (let (next_duty, c') = indicator_ec_auto_duty_adjust sh c
            in if next_duty \<noteq> 0 \<and> next_duty \<noteq> auto_duty_val sh
               then (sh\<lparr>auto_duty_val := next_duty, fan_duty := next_duty\<rparr>, c')
               else (sh, c'))
         else (sh, c))"

text \<open>The loop \<^verbatim>\<open>while (1)\<close> of the status mode, for as many passes as there are readings.\<close>

fun status_loop :: "share_info \<times> controller \<Rightarrow> share_info list \<Rightarrow> share_info \<times> controller" where
  "status_loop st [] = st"
| "status_loop st (readings # rest) =
     status_loop (status_display_update_with_control readings st) rest"

section \<open>Activity detector\<close>






section \<open>Concrete inputs used by the examples\<close>

text \<open>A sample with the given CPU temperature, GPU temperature and fan duty, in auto mode.\<close>

definition sample :: "int \<Rightarrow> int \<Rightarrow> int \<Rightarrow> share_info" where
  "sample cpu gpu duty = daemon_init_share\<lparr>cpu_temp := cpu, gpu_temp := gpu, fan_duty := duty\<rparr>"



text \<open>
  An \<^verbatim>\<open>atof\<close> and an \<^verbatim>\<open>atoi\<close> that are right on the arguments \<^verbatim>\<open>10\<close> and \<^verbatim>\<open>nan\<close>, the only ones
  that the examples have them read.
\<close>

definition example_atof :: "string \<Rightarrow> c_double" where
  "example_atof s = (if s = ''10'' then Num 10 else if s = ''nan'' then NaN else Num 0)"

definition example_atoi :: "string \<Rightarrow> int" where
  "example_atoi s = (if s = ''10'' then 10 else 0)"

text \<open>A daemon in auto mode that last wrote 20 percent and now samples 45 degrees.\<close>

definition cool_daemon :: daemon where
  "cool_daemon =
     \<lparr>share = (sample 45 45 20)\<lparr>auto_duty_val := 20\<rparr>, ctl = controller_init, ec = quiet_ec\<rparr>"

text \<open>A daemon in auto mode that samples 68 degrees, on an EC that never answers.\<close>

definition stuck_daemon :: daemon where
  "stuck_daemon = \<lparr>share = sample 68 60 0, ctl = controller_init, ec = stuck_ec\<rparr>"

section \<open>Properties of the EC layer\<close>

lemma ec_io_wait_loop_outb_log:
  "outb_log (snd (snd (ec_io_wait_loop port flag val data i w))) = outb_log w"
proof (induction port flag val data i w rule: ec_io_wait_loop.induct)
  case (1 port flag val data i w)
  show ?case
  proof (cases "(drop_bit flag data AND 1) \<noteq> val \<and> i < 100")
    case True
    then have "ec_io_wait_loop port flag val data i w =
        ec_io_wait_loop port flag val (fst (inb port w)) (Suc i) (snd (inb port w))"
      by (subst ec_io_wait_loop.simps) simp
    with True 1 show ?thesis by (simp add: inb_def)
  next
    case False
    then show ?thesis by (subst ec_io_wait_loop.simps) auto
  qed
qed

lemma ec_io_wait_outb_log: "outb_log (snd (ec_io_wait port flag val w)) = outb_log w"
  using ec_io_wait_loop_outb_log [of port flag val "fst (inb port w)" 0 "snd (inb port w)"]
  by (simp add: ec_io_wait_def split_beta Let_def inb_def)

lemma ec_io_do_outb_log:
  "outb_log (snd (ec_io_do cmd port v w)) =
     outb_log w @ [(ucast cmd, EC_SC), (ucast port, EC_DATA), (v, EC_DATA)]"
  by (simp add: ec_io_do_def split_beta Let_def ec_io_wait_outb_log outb_def)

lemma trunc_duty: "0 \<le> d \<Longrightarrow> c_trunc (real_of_int d / 100 * 255) = d * 255 div 100"
proof -
  assume "0 \<le> d"
  have "real_of_int d / 100 * 255 = real_of_int (d * 255) / real_of_int 100" by simp
  then have "\<lfloor>real_of_int d / 100 * 255\<rfloor> = d * 255 div 100"
    by (simp only: floor_divide_of_int_eq)
  with \<open>0 \<le> d\<close> show ?thesis by (simp add: c_trunc_def)
qed

lemma ec_write_fan_duty_reject:
  "duty < 1 \<or> duty > 100 \<Longrightarrow> ec_write_fan_duty duty w = (EXIT_FAILURE, w)"
  by (simp add: ec_write_fan_duty_def)

lemma ec_write_fan_duty_accept:
  "1 \<le> duty \<Longrightarrow> duty \<le> 100 \<Longrightarrow>
     ec_write_fan_duty duty w = ec_io_do 0x99 0x01 (word_of_int (duty * 255 div 100)) w"
  unfolding ec_write_fan_duty_def Let_def by (subst trunc_duty) auto

lemma ec_write_fan_duty_log:
  "1 \<le> duty \<Longrightarrow> duty \<le> 100 \<Longrightarrow>
     outb_log (snd (ec_write_fan_duty duty w)) =
       outb_log w @ [(0x99, EC_SC), (0x01, EC_DATA), (word_of_int (duty * 255 div 100), EC_DATA)]"
  by (simp add: ec_write_fan_duty_accept ec_io_do_outb_log)

text \<open>
  Claim C3, as amended. \<open>ec_write_fan_duty\<close> returns \<open>EXIT_FAILURE\<close> and leaves the ports
  untouched for a percentage outside 1..100. For a percentage inside 1..100 it makes one
  write transaction: command byte 0x99 to the command port, 0x01 to the data port, then the
  value byte to the data port, and the value is the percentage times 255 divided by 100
  rounded down (not to nearest).
\<close>

theorem ec_write_fan_duty_transaction:
  "(duty < 1 \<or> duty > 100 \<longrightarrow> ec_write_fan_duty duty w = (EXIT_FAILURE, w)) \<and>
   (1 \<le> duty \<and> duty \<le> 100 \<longrightarrow>
      outb_log (snd (ec_write_fan_duty duty w)) =
        outb_log w @ [(0x99, EC_SC), (0x01, EC_DATA), (word_of_int (duty * 255 div 100), EC_DATA)])"
  using ec_write_fan_duty_reject [of duty w] ec_write_fan_duty_log [of duty w]
  by blast

theorem ec_write_fan_duty_transaction_witness:
  "ec_write_fan_duty 0 quiet_ec = (EXIT_FAILURE, quiet_ec) \<and>
   ec_write_fan_duty 101 quiet_ec = (EXIT_FAILURE, quiet_ec) \<and>
   outb_log (snd (ec_write_fan_duty 50 quiet_ec)) = [(0x99, EC_SC), (0x01, EC_DATA), (127, EC_DATA)]"
  using ec_write_fan_duty_transaction [of 0 quiet_ec]
    ec_write_fan_duty_transaction [of 101 quiet_ec]
    ec_write_fan_duty_transaction [of 50 quiet_ec]
  by (simp add: quiet_ec_def)

text \<open>
  Claim C3 as stated fails at 1 percent: the value byte written is 2, while 1 * 255 / 100 =
  2.55 rounds to 3.
\<close>

theorem ec_write_fan_duty_truncates_counterexample:
  "outb_log (snd (ec_write_fan_duty 1 quiet_ec)) = [(0x99, EC_SC), (0x01, EC_DATA), (2, EC_DATA)] \<and>
   round (real_of_int 1 * 255 / 100) = (3 :: int)"
proof -
  have "outb_log (snd (ec_write_fan_duty 1 quiet_ec)) =
      [(0x99, EC_SC), (0x01, EC_DATA), (2, EC_DATA)]"
    by (simp add: ec_write_fan_duty_log quiet_ec_def)
  moreover have "round (real_of_int 1 * 255 / 100) = (3 :: int)"
    by (simp add: round_def)
  ultimately show ?thesis by simp
qed

lemma c_div_nonneg: "0 \<le> a \<Longrightarrow> 0 < b \<Longrightarrow> c_div a b = a div b"
  by (cases "a = 0") (simp_all add: c_div_def)

lemma be_disjoint:
  fixes hi lo :: "8 word"
  shows "(push_bit 8 (ucast hi) :: 16 word) AND ucast lo = 0"
  by (rule bit_word_eqI) (auto simp add: bit_simps dest: bit_imp_le_length)

lemma be_sum:
  fixes hi lo :: "8 word"
  shows "(push_bit 8 (ucast hi) OR ucast lo :: 16 word) = push_bit 8 (ucast hi) + ucast lo"
  by (simp add: disjunctive_add_eq_or be_disjoint)

lemma be_hi:
  fixes hi :: "8 word"
  shows "uint (push_bit 8 (ucast hi) :: 16 word) = push_bit 8 (uint hi)"
proof -
  have "uint hi < 2 ^ 8" using uint_lt2p [of hi] by simp
  then have b: "uint hi * 256 < 65536" by simp
  have "uint (push_bit 8 (ucast hi) :: 16 word) = (uint (ucast hi :: 16 word) * 256) mod 2 ^ 16"
    by (simp add: push_bit_eq_mult uint_word_ariths)
  also have "uint (ucast hi :: 16 word) = uint hi" by (simp add: uint_up_ucast is_up)
  finally show ?thesis using b by (simp add: push_bit_eq_mult)
qed

lemma big_endian_divisor:
  fixes hi lo :: "8 word"
  shows "uint (push_bit 8 (ucast hi) OR ucast lo :: 16 word) = push_bit 8 (uint hi) + uint lo"
proof -
  have h: "uint hi < 2 ^ 8" using uint_lt2p [of hi] by simp
  have l: "uint lo < 2 ^ 8" using uint_lt2p [of lo] by simp
  have "uint (push_bit 8 (ucast hi) + ucast lo :: 16 word) =
      (uint (push_bit 8 (ucast hi) :: 16 word) + uint (ucast lo :: 16 word)) mod 2 ^ 16"
    by (simp add: uint_word_ariths)
  also have "\<dots> = (push_bit 8 (uint hi) + uint lo) mod 2 ^ 16"
    by (simp add: be_hi uint_up_ucast is_up)
  also have "\<dots> = push_bit 8 (uint hi) + uint lo"
    using h l by (simp add: push_bit_eq_mult)
  finally show ?thesis by (simp add: be_sum)
qed

lemma calculate_fan_rpms_divisor:
  fixes hi lo :: "8 word"
  shows "calculate_fan_rpms (uint hi) (uint lo) =
     (let d = uint (push_bit 8 (ucast hi) OR ucast lo :: 16 word)
      in if d > 0 then 2156220 div d else 0)"
  by (simp add: calculate_fan_rpms_def big_endian_divisor Let_def c_div_nonneg)

text \<open>
  Claim C9. Let \<open>hi\<close> be the byte of register 0xD0 and \<open>lo\<close> the byte of register 0xD1, and
  \<open>d\<close> the 16-bit number \<open>(hi << 8) | lo\<close>. The reported RPM is \<open>2156220 div d\<close> when
  \<open>d > 0\<close> and 0 when \<open>d = 0\<close>: on the port path (\<open>ec_query_fan_rpms\<close> reads 0xD0, then
  0xD1) and on the register-image path of the worker.
\<close>

theorem fan_rpms_from_big_endian_divisor:
  fixes hi lo :: "8 word"
  shows "calculate_fan_rpms (uint hi) (uint lo) =
           (let d = uint (push_bit 8 (ucast hi) OR ucast lo :: 16 word)
            in if d > 0 then 2156220 div d else 0) \<and>
         fst (ec_query_fan_rpms w) =
           calculate_fan_rpms
             (uint (fst (ec_io_read 0xD0 w)))
             (uint (fst (ec_io_read 0xD1 (snd (ec_io_read 0xD0 w))))) \<and>
         fan_rpms (share (daemon_ec_worker_read (Sysfs_read 0x100 buf) dm)) =
           calculate_fan_rpms (uint (buf 0xD0)) (uint (buf 0xD1))"
  by (simp add: calculate_fan_rpms_divisor ec_query_fan_rpms_def split_beta
      EC_REG_FAN_RPMS_HI_def EC_REG_FAN_RPMS_LO_def daemon_ec_worker_read_def)

theorem fan_rpms_from_big_endian_divisor_witness:
  "calculate_fan_rpms (uint (0x02 :: 8 word)) (uint (0x58 :: 8 word)) = 3593 \<and>
   calculate_fan_rpms (uint (0 :: 8 word)) (uint (0 :: 8 word)) = 0"
  using fan_rpms_from_big_endian_divisor [of "0x02" "0x58" quiet_ec "\<lambda>n. 0" "daemon_init quiet_ec"]
    fan_rpms_from_big_endian_divisor [of 0 0 quiet_ec "\<lambda>n. 0" "daemon_init quiet_ec"]
  by simp

section \<open>Properties of the PID update\<close>

lemma clamp_lo_hi_range: "lo \<le> hi \<Longrightarrow> lo \<le> clamp_lo_hi lo hi x \<and> clamp_lo_hi lo hi x \<le> hi"
  by (simp add: clamp_lo_hi_def Let_def)

lemma tune_frame:
  "pid_output_min (adaptive_pid_tune_parameters sh c) = pid_output_min c \<and>
   pid_output_max (adaptive_pid_tune_parameters sh c) = pid_output_max c \<and>
   pid_enabled (adaptive_pid_tune_parameters sh c) = pid_enabled c \<and>
   pid_integral (adaptive_pid_tune_parameters sh c) = pid_integral c \<and>
   pid_prev_error (adaptive_pid_tune_parameters sh c) = pid_prev_error c \<and>
   target_temperature (adaptive_pid_tune_parameters sh c) = target_temperature c"
  by (simp add: adaptive_pid_tune_parameters_def Let_def)

lemma adaptive_phase_frame:
  "pid_output_min (adaptive_phase adaptive_pid_tune_parameters sh c) = pid_output_min c \<and>
   pid_output_max (adaptive_phase adaptive_pid_tune_parameters sh c) = pid_output_max c \<and>
   pid_enabled (adaptive_phase adaptive_pid_tune_parameters sh c) = pid_enabled c \<and>
   pid_integral (adaptive_phase adaptive_pid_tune_parameters sh c) = pid_integral c \<and>
   pid_prev_error (adaptive_phase adaptive_pid_tune_parameters sh c) = pid_prev_error c \<and>
   target_temperature (adaptive_phase adaptive_pid_tune_parameters sh c) = target_temperature c"
  by (simp add: adaptive_phase_def Let_def tune_frame adaptive_pid_add_temp_history_def)

lemma pid_update_frame:
  "pid_output_min (snd (pid_update e c)) = pid_output_min c \<and>
   pid_output_max (snd (pid_update e c)) = pid_output_max c \<and>
   pid_enabled (snd (pid_update e c)) = pid_enabled c \<and>
   pid_kp (snd (pid_update e c)) = pid_kp c \<and>
   pid_ki (snd (pid_update e c)) = pid_ki c \<and>
   pid_kd (snd (pid_update e c)) = pid_kd c \<and>
   pid_prev_error (snd (pid_update e c)) = e"
  by (simp add: pid_update_def Let_def)

lemma pid_update_integral:
  "- 100 \<le> pid_integral (snd (pid_update e c)) \<and> pid_integral (snd (pid_update e c)) \<le> 100"
  by (simp add: pid_update_def Let_def)

lemma pid_update_output:
  "pid_output_min c \<le> pid_output_max c \<Longrightarrow>
     pid_output_min c \<le> fst (pid_update e c) \<and> fst (pid_update e c) \<le> pid_output_max c"
  by (simp add: pid_update_def Let_def)

lemma auto_duty_adjust_with_enabled:
  "pid_enabled c \<noteq> 0 \<Longrightarrow>
     snd (auto_duty_adjust_with tune sh c) =
       snd (pid_update (real_of_int (max (cpu_temp sh) (gpu_temp sh)) - real_of_int (target_temperature c))
              (adaptive_phase tune sh c))"
  by (simp add: auto_duty_adjust_with_def Let_def split_beta)

lemma ec_auto_duty_adjust_enabled:
  "pid_enabled c \<noteq> 0 \<Longrightarrow>
     snd (ec_auto_duty_adjust sh c) =
       snd (pid_update (real_of_int (max (cpu_temp sh) (gpu_temp sh)) - real_of_int (target_temperature c))
              (adaptive_phase adaptive_pid_tune_parameters sh c))"
  by (simp add: ec_auto_duty_adjust_def auto_duty_adjust_with_enabled)

lemma ec_auto_duty_adjust_disabled:
  "pid_enabled c = 0 \<Longrightarrow> snd (ec_auto_duty_adjust sh c) = c"
  by (simp add: ec_auto_duty_adjust_def auto_duty_adjust_with_def Let_def)

lemma ec_auto_duty_adjust_duty_range:
  "0 \<le> fst (ec_auto_duty_adjust sh c) \<and> fst (ec_auto_duty_adjust sh c) \<le> 100"
  by (auto simp add: ec_auto_duty_adjust_def auto_duty_adjust_with_def Let_def split_beta)

lemma ec_auto_duty_adjust_frame:
  "pid_output_min (snd (ec_auto_duty_adjust sh c)) = pid_output_min c \<and>
   pid_output_max (snd (ec_auto_duty_adjust sh c)) = pid_output_max c \<and>
   pid_enabled (snd (ec_auto_duty_adjust sh c)) = pid_enabled c"
proof (cases "pid_enabled c = 0")
  case True
  then show ?thesis by (simp add: ec_auto_duty_adjust_disabled)
next
  case False
  then show ?thesis
    by (simp add: ec_auto_duty_adjust_enabled pid_update_frame adaptive_phase_frame)
qed

lemma auto_duty_run_Cons:
  "auto_duty_run c (sh # shs) = auto_duty_run (snd (ec_auto_duty_adjust sh c)) shs"
  by (simp add: auto_duty_run_def ec_auto_duty_adjust_def)

lemma auto_duty_run_Nil: "auto_duty_run c [] = c"
  by (simp add: auto_duty_run_def)

lemma auto_duty_run_frame:
  "pid_output_min (auto_duty_run c shs) = pid_output_min c \<and>
   pid_output_max (auto_duty_run c shs) = pid_output_max c \<and>
   pid_enabled (auto_duty_run c shs) = pid_enabled c"
  by (induction shs arbitrary: c)
    (simp_all add: auto_duty_run_Nil auto_duty_run_Cons ec_auto_duty_adjust_frame)

lemma pid_reset_frame:
  "pid_output_min (pid_reset c) = pid_output_min c \<and>
   pid_output_max (pid_reset c) = pid_output_max c \<and>
   pid_enabled (pid_reset c) = pid_enabled c \<and>
   pid_integral (pid_reset c) = 0 \<and> pid_prev_error (pid_reset c) = 0"
  by (simp add: pid_reset_def adaptive_pid_reset_def Let_def)

text \<open>
  Claim C7. Start from the state that \<open>pid_reset\<close> leaves, with the PID enabled and output
  bounds that are ordered (in \<^verbatim>\<open>clevo-daemon.c\<close> they are the constants 0 and 100, which
  nothing assigns). Feed any list of samples. At every position \<open>k\<close> of the list, the update
  made there leaves the integral in [-100, 100], its clamped output lies between the output
  bounds, and the duty it returns lies in [0, 100].
\<close>

theorem pid_bounds_along_run:
  assumes "pid_enabled c0 \<noteq> 0" and "pid_output_min c0 \<le> pid_output_max c0" and "k < length shs"
  shows "- 100 \<le> pid_integral (snd (ec_auto_duty_adjust (shs ! k) (auto_duty_run (pid_reset c0) (take k shs)))) \<and>
         pid_integral (snd (ec_auto_duty_adjust (shs ! k) (auto_duty_run (pid_reset c0) (take k shs)))) \<le> 100 \<and>
         pid_output_min c0 \<le> pid_clamped_output (shs ! k) (auto_duty_run (pid_reset c0) (take k shs)) \<and>
         pid_clamped_output (shs ! k) (auto_duty_run (pid_reset c0) (take k shs)) \<le> pid_output_max c0 \<and>
         0 \<le> fst (ec_auto_duty_adjust (shs ! k) (auto_duty_run (pid_reset c0) (take k shs))) \<and>
         fst (ec_auto_duty_adjust (shs ! k) (auto_duty_run (pid_reset c0) (take k shs))) \<le> 100"
proof -
  define c where "c = auto_duty_run (pid_reset c0) (take k shs)"
  define sh where "sh = shs ! k"
  have en: "pid_enabled c \<noteq> 0" using assms(1) by (simp add: c_def auto_duty_run_frame pid_reset_frame)
  have mn: "pid_output_min c = pid_output_min c0" by (simp add: c_def auto_duty_run_frame pid_reset_frame)
  have mx: "pid_output_max c = pid_output_max c0" by (simp add: c_def auto_duty_run_frame pid_reset_frame)
  have i: "- 100 \<le> pid_integral (snd (ec_auto_duty_adjust sh c)) \<and>
      pid_integral (snd (ec_auto_duty_adjust sh c)) \<le> 100"
    using en by (simp add: ec_auto_duty_adjust_enabled pid_update_integral)
  have "pid_output_min (adaptive_phase adaptive_pid_tune_parameters sh c) \<le>
      pid_output_max (adaptive_phase adaptive_pid_tune_parameters sh c)"
    using assms(2) by (simp add: adaptive_phase_frame mn mx)
  from pid_update_output [OF this]
  have o: "pid_output_min c0 \<le> pid_clamped_output sh c \<and> pid_clamped_output sh c \<le> pid_output_max c0"
    by (simp add: pid_clamped_output_def adaptive_phase_frame mn mx)
  show ?thesis
    using i o ec_auto_duty_adjust_duty_range [of sh c] by (simp add: c_def sh_def)
qed


theorem pid_bounds_along_run_witness:
  "pid_enabled controller_init \<noteq> 0 \<and>
   pid_output_min controller_init \<le> pid_output_max controller_init \<and>
   - 100 \<le> pid_integral (snd (ec_auto_duty_adjust (sample 90 70 20) (auto_duty_run (pid_reset controller_init) (take 1 [sample 45 40 20, sample 90 70 20])))) \<and>
   pid_integral (snd (ec_auto_duty_adjust (sample 90 70 20) (auto_duty_run (pid_reset controller_init) (take 1 [sample 45 40 20, sample 90 70 20])))) \<le> 100 \<and>
   0 \<le> pid_clamped_output (sample 90 70 20) (auto_duty_run (pid_reset controller_init) (take 1 [sample 45 40 20, sample 90 70 20])) \<and>
   pid_clamped_output (sample 90 70 20) (auto_duty_run (pid_reset controller_init) (take 1 [sample 45 40 20, sample 90 70 20])) \<le> 100 \<and>
   0 \<le> fst (ec_auto_duty_adjust (sample 90 70 20) (auto_duty_run (pid_reset controller_init) (take 1 [sample 45 40 20, sample 90 70 20]))) \<and>
   fst (ec_auto_duty_adjust (sample 90 70 20) (auto_duty_run (pid_reset controller_init) (take 1 [sample 45 40 20, sample 90 70 20]))) \<le> 100"
proof -
  have a: "pid_enabled controller_init \<noteq> 0" by (simp add: controller_init_def)
  have b: "pid_output_min controller_init \<le> pid_output_max controller_init"
    by (simp add: controller_init_def)
  have c: "(1::nat) < length [sample 45 40 20, sample 90 70 20]" by simp
  have mn: "pid_output_min controller_init = 0" by (simp add: controller_init_def)
  have mx: "pid_output_max controller_init = 100" by (simp add: controller_init_def)
  show ?thesis
    using pid_bounds_along_run [OF a b c] a b by (simp add: mn mx)
qed

section \<open>Properties of the adaptive tuner\<close>

lemma tune_ki_kd_range:
  "0.01 \<le> pid_ki (adaptive_pid_tune_parameters sh c) \<and>
   pid_ki (adaptive_pid_tune_parameters sh c) \<le> 0.5 \<and>
   0.1 \<le> pid_kd (adaptive_pid_tune_parameters sh c) \<and>
   pid_kd (adaptive_pid_tune_parameters sh c) \<le> 2.0"
  using clamp_lo_hi_range [of "0.01" "0.5"] clamp_lo_hi_range [of "0.1" "2.0"]
  by (simp add: adaptive_pid_tune_parameters_def Let_def)

lemma indicator_tune_ki_kd_range:
  "0.01 \<le> pid_ki (indicator_adaptive_pid_tune_parameters sh c) \<and>
   pid_ki (indicator_adaptive_pid_tune_parameters sh c) \<le> 0.5 \<and>
   0.1 \<le> pid_kd (indicator_adaptive_pid_tune_parameters sh c) \<and>
   pid_kd (indicator_adaptive_pid_tune_parameters sh c) \<le> 2.0"
  using clamp_lo_hi_range [of "0.01" "0.5"] clamp_lo_hi_range [of "0.1" "2.0"]
  by (simp add: indicator_adaptive_pid_tune_parameters_def Let_def)

lemma tune_kp_adjusted:
  "adaptive_pid_calculate_performance_score sh c < adaptive_target_performance c \<Longrightarrow>
     0.5 \<le> pid_kp (adaptive_pid_tune_parameters sh c) \<and>
     pid_kp (adaptive_pid_tune_parameters sh c) \<le> 5.0"
  using clamp_lo_hi_range [of "0.5" "5.0"]
  by (simp add: adaptive_pid_tune_parameters_def Let_def)

lemma tune_kp_untouched:
  "\<not> adaptive_pid_calculate_performance_score sh c < adaptive_target_performance c \<Longrightarrow>
     pid_kp (adaptive_pid_tune_parameters sh c) = pid_kp c"
  by (simp add: adaptive_pid_tune_parameters_def Let_def)

lemma indicator_tune_kp_adjusted:
  "adaptive_pid_calculate_performance_score sh c < adaptive_target_performance c \<Longrightarrow>
     0.5 \<le> pid_kp (indicator_adaptive_pid_tune_parameters sh c) \<and>
     pid_kp (indicator_adaptive_pid_tune_parameters sh c) \<le> 5.0"
  using clamp_lo_hi_range [of "0.5" "5.0"]
  by (simp add: indicator_adaptive_pid_tune_parameters_def Let_def)

lemma indicator_tune_kp_untouched:
  "\<not> adaptive_pid_calculate_performance_score sh c < adaptive_target_performance c \<Longrightarrow>
     pid_kp (indicator_adaptive_pid_tune_parameters sh c) = pid_kp c"
  by (simp add: indicator_adaptive_pid_tune_parameters_def Let_def)

lemma indicator_tune_keeps_steps:
  "adaptive_kp_step (indicator_adaptive_pid_tune_parameters sh c) = adaptive_kp_step c \<and>
   adaptive_ki_step (indicator_adaptive_pid_tune_parameters sh c) = adaptive_ki_step c \<and>
   adaptive_kd_step (indicator_adaptive_pid_tune_parameters sh c) = adaptive_kd_step c"
  by (simp add: indicator_adaptive_pid_tune_parameters_def Let_def)

lemma tune_reverses_steps:
  "adaptive_pid_calculate_performance_score sh c - adaptive_prev_score c < - 0.05 \<Longrightarrow>
   adaptive_kp_step (adaptive_pid_tune_parameters sh c) = - 0.8 * adaptive_kp_step c \<and>
   adaptive_ki_step (adaptive_pid_tune_parameters sh c) = - 0.8 * adaptive_ki_step c \<and>
   adaptive_kd_step (adaptive_pid_tune_parameters sh c) = - 0.8 * adaptive_kd_step c"
  by (simp add: adaptive_pid_tune_parameters_def Let_def)

lemma tune_keeps_steps:
  "\<not> adaptive_pid_calculate_performance_score sh c - adaptive_prev_score c < - 0.05 \<Longrightarrow>
   adaptive_kp_step (adaptive_pid_tune_parameters sh c) = adaptive_kp_step c \<and>
   adaptive_ki_step (adaptive_pid_tune_parameters sh c) = adaptive_ki_step c \<and>
   adaptive_kd_step (adaptive_pid_tune_parameters sh c) = adaptive_kd_step c"
  by (simp add: adaptive_pid_tune_parameters_def Let_def)

section \<open>Runs on a constant temperature\<close>

lemma auto_duty_run_with_snoc:
  "auto_duty_run_with tune c (shs @ [sh]) =
     snd (auto_duty_adjust_with tune sh (auto_duty_run_with tune c shs))"
  by (induction shs arbitrary: c) simp_all

lemma auto_duty_run_with_append:
  "auto_duty_run_with tune c (xs @ ys) = auto_duty_run_with tune (auto_duty_run_with tune c xs) ys"
  by (induction xs arbitrary: c) simp_all

lemma foldl_add_replicate:
  "foldl (\<lambda>acc x. acc + x) a (replicate n (x::real)) = a + real n * x"
  by (induction n arbitrary: a) (simp_all add: algebra_simps)

lemma foldl_sq_replicate:
  "foldl (\<lambda>acc y. acc + (y - m) * (y - m)) a (replicate n (x::real)) = a + real n * ((x - m) * (x - m))"
  by (induction n arbitrary: a) (simp_all add: algebra_simps)

lemma oscillation_constant:
  assumes "take (adaptive_temp_history_size c) (adaptive_temp_history c) =
           replicate (adaptive_temp_history_size c) x"
  shows "adaptive_pid_calculate_oscillation c = 0"
proof (cases "adaptive_temp_history_size c < 10")
  case True
  then show ?thesis by (simp add: adaptive_pid_calculate_oscillation_def)
next
  case False
  then have n: "real (adaptive_temp_history_size c) \<noteq> 0" by simp
  show ?thesis
    using False n
    by (simp add: adaptive_pid_calculate_oscillation_def Let_def assms foldl_add_replicate
        foldl_sq_replicate)
qed

lemma take_update_snoc:
  assumes "k < length h" and "take k h = replicate k x"
  shows "take (Suc k) (h[k := x]) = replicate (Suc k) x"
proof -
  have "take (Suc k) (h[k := x]) = take k (h[k := x]) @ [h[k := x] ! k]"
    using assms(1) by (simp add: take_Suc_conv_app_nth)
  then show ?thesis using assms by (simp add: replicate_append_same)
qed

lemma run_before_tuning:
  assumes "pid_enabled c \<noteq> 0" and "adaptive_pid_enabled c \<noteq> 0"
    and "adaptive_cycle_count c = 0" and "adaptive_temp_history_index c = m"
    and "adaptive_temp_history_size c = m" and "length (adaptive_temp_history c) = 60"
    and "take m (adaptive_temp_history c) = replicate m (real_of_int (max (cpu_temp sh) (gpu_temp sh)))"
    and "int n < adaptive_tuning_interval c" and "m + n < 60"
  shows "\<exists>h i e. auto_duty_run_with tune c (replicate n sh) =
           c\<lparr>adaptive_temp_history := h, adaptive_temp_history_index := m + n,
             adaptive_temp_history_size := m + n, adaptive_cycle_count := int n,
             pid_integral := i, pid_prev_error := e\<rparr> \<and>
         length h = 60 \<and>
         take (m + n) h = replicate (m + n) (real_of_int (max (cpu_temp sh) (gpu_temp sh)))"
  using assms(8,9)
proof (induction n)
  case 0
  show ?case
    using assms(3,4,5,6,7)
    by (intro exI [of _ "adaptive_temp_history c"] exI [of _ "pid_integral c"]
        exI [of _ "pid_prev_error c"]) simp
next
  case (Suc n)
  let ?t = "real_of_int (max (cpu_temp sh) (gpu_temp sh))"
  from Suc obtain h i e where
    run: "auto_duty_run_with tune c (replicate n sh) =
           c\<lparr>adaptive_temp_history := h, adaptive_temp_history_index := m + n,
             adaptive_temp_history_size := m + n, adaptive_cycle_count := int n,
             pid_integral := i, pid_prev_error := e\<rparr>"
    and len: "length h = 60"
    and tk: "take (m + n) h = replicate (m + n) ?t"
    by auto
  let ?cn = "c\<lparr>adaptive_temp_history := h, adaptive_temp_history_index := m + n,
             adaptive_temp_history_size := m + n, adaptive_cycle_count := int n,
             pid_integral := i, pid_prev_error := e\<rparr>"
  have rep: "replicate (Suc n) sh = replicate n sh @ [sh]"
    by (simp add: replicate_append_same)
  have idx: "Suc (m + n) mod 60 = Suc (m + n)" using Suc.prems by simp
  have ph: "adaptive_phase tune sh ?cn =
      ?cn\<lparr>adaptive_temp_history := h[m + n := ?t], adaptive_temp_history_index := Suc (m + n),
          adaptive_temp_history_size := Suc (m + n), adaptive_cycle_count := int (Suc n)\<rparr>"
    using assms(2) Suc.prems idx
    by (simp add: adaptive_phase_def adaptive_pid_add_temp_history_def Let_def)
  have tk': "take (Suc (m + n)) (h[m + n := ?t]) = replicate (Suc (m + n)) ?t"
    using len Suc.prems tk by (intro take_update_snoc) simp_all
  have "auto_duty_run_with tune c (replicate (Suc n) sh) =
      snd (auto_duty_adjust_with tune sh ?cn)"
    by (simp only: rep auto_duty_run_with_snoc run)
  also have "\<dots> = snd (pid_update (?t - real_of_int (target_temperature c)) (adaptive_phase tune sh ?cn))"
    using assms(1) by (simp add: auto_duty_adjust_with_enabled)
  finally have "auto_duty_run_with tune c (replicate (Suc n) sh) =
      c\<lparr>adaptive_temp_history := h[m + n := ?t], adaptive_temp_history_index := m + Suc n,
        adaptive_temp_history_size := m + Suc n, adaptive_cycle_count := int (Suc n),
        pid_integral := pid_integral (snd (pid_update (?t - real_of_int (target_temperature c)) (adaptive_phase tune sh ?cn))),
        pid_prev_error := ?t - real_of_int (target_temperature c)\<rparr>"
    by (simp add: ph pid_update_def Let_def)
  then show ?case using tk' len by (intro exI conjI) (assumption, simp_all)
qed

lemma tuning_tick:
  assumes "pid_enabled c \<noteq> 0" and "adaptive_pid_enabled c \<noteq> 0"
    and "adaptive_cycle_count c = 0" and "adaptive_temp_history_index c = m"
    and "adaptive_temp_history_size c = m" and "length (adaptive_temp_history c) = 60"
    and "take m (adaptive_temp_history c) = replicate m (real_of_int (max (cpu_temp sh) (gpu_temp sh)))"
    and "int (Suc n) = adaptive_tuning_interval c" and "m + Suc n \<le> 60"
  shows "\<exists>c2.
           auto_duty_run_with tune c (replicate (Suc n) sh) =
             snd (pid_update
                    (real_of_int (max (cpu_temp sh) (gpu_temp sh)) - real_of_int (target_temperature c))
                    ((tune sh c2)\<lparr>adaptive_cycle_count := 0\<rparr>)) \<and>
           adaptive_pid_calculate_oscillation c2 = 0 \<and>
           adaptive_temp_history_size c2 = m + Suc n \<and>
           adaptive_temp_history_index c2 = (m + Suc n) mod 60 \<and>
           length (adaptive_temp_history c2) = 60 \<and>
           take (m + Suc n) (adaptive_temp_history c2) =
             replicate (m + Suc n) (real_of_int (max (cpu_temp sh) (gpu_temp sh))) \<and>
           c2\<lparr>adaptive_temp_history := adaptive_temp_history c,
              adaptive_temp_history_index := m, adaptive_temp_history_size := m,
              adaptive_cycle_count := 0,
              pid_integral := pid_integral c, pid_prev_error := pid_prev_error c\<rparr> = c"
proof -
  let ?t = "real_of_int (max (cpu_temp sh) (gpu_temp sh))"
  have "int n < adaptive_tuning_interval c" and "m + n < 60" using assms(8,9) by simp_all
  from run_before_tuning [OF assms(1-7) this, of tune]
  obtain h i e where
    run: "auto_duty_run_with tune c (replicate n sh) =
           c\<lparr>adaptive_temp_history := h, adaptive_temp_history_index := m + n,
             adaptive_temp_history_size := m + n, adaptive_cycle_count := int n,
             pid_integral := i, pid_prev_error := e\<rparr>"
    and len: "length h = 60"
    and tk: "take (m + n) h = replicate (m + n) ?t"
    by auto
  define cn where "cn = c\<lparr>adaptive_temp_history := h, adaptive_temp_history_index := m + n,
             adaptive_temp_history_size := m + n, adaptive_cycle_count := int n,
             pid_integral := i, pid_prev_error := e\<rparr>"
  define c1 where "c1 = adaptive_pid_add_temp_history (max (cpu_temp sh) (gpu_temp sh)) cn"
  define c2 where "c2 = c1\<lparr>adaptive_cycle_count := adaptive_cycle_count c1 + 1\<rparr>"
  have rep: "replicate (Suc n) sh = replicate n sh @ [sh]"
    by (simp add: replicate_append_same)
  have due: "adaptive_cycle_count c2 \<ge> adaptive_tuning_interval c2"
    using assms(8) by (simp add: c2_def c1_def cn_def adaptive_pid_add_temp_history_def)
  have en: "adaptive_pid_enabled cn \<noteq> 0" using assms(2) by (simp add: cn_def)
  have ph: "adaptive_phase tune sh cn = (tune sh c2)\<lparr>adaptive_cycle_count := 0\<rparr>"
    using en due unfolding adaptive_phase_def Let_def c2_def c1_def by simp
  have tk': "take (Suc (m + n)) (h[m + n := ?t]) = replicate (Suc (m + n)) ?t"
    using len \<open>m + n < 60\<close> tk by (intro take_update_snoc) simp_all
  have sz: "adaptive_temp_history_size c2 = m + Suc n"
    using \<open>m + n < 60\<close> by (simp add: c2_def c1_def cn_def adaptive_pid_add_temp_history_def)
  have ix: "adaptive_temp_history_index c2 = (m + Suc n) mod 60"
    by (simp add: c2_def c1_def cn_def adaptive_pid_add_temp_history_def)
  have hs: "adaptive_temp_history c2 = h[m + n := ?t]"
    by (simp add: c2_def c1_def cn_def adaptive_pid_add_temp_history_def)
  have tk2: "take (m + Suc n) (adaptive_temp_history c2) = replicate (m + Suc n) ?t"
    using tk' by (simp add: hs)
  have osc: "adaptive_pid_calculate_oscillation c2 = 0"
    by (rule oscillation_constant [where x = ?t]) (simp add: sz hs tk')
  have fr: "c2\<lparr>adaptive_temp_history := adaptive_temp_history c,
              adaptive_temp_history_index := m, adaptive_temp_history_size := m,
              adaptive_cycle_count := 0,
              pid_integral := pid_integral c, pid_prev_error := pid_prev_error c\<rparr> = c"
    using assms(3,4,5)
    by (simp add: c2_def c1_def cn_def adaptive_pid_add_temp_history_def)
  have tg: "target_temperature cn = target_temperature c" by (simp add: cn_def)
  have pe: "pid_enabled cn \<noteq> 0" using assms(1) by (simp add: cn_def)
  have "auto_duty_run_with tune c (replicate (Suc n) sh) =
      snd (auto_duty_adjust_with tune sh cn)"
    by (simp only: rep auto_duty_run_with_snoc run cn_def)
  also have "\<dots> = snd (pid_update (?t - real_of_int (target_temperature c)) (adaptive_phase tune sh cn))"
    using pe by (simp add: auto_duty_adjust_with_enabled tg)
  finally have "auto_duty_run_with tune c (replicate (Suc n) sh) =
      snd (pid_update (?t - real_of_int (target_temperature c)) ((tune sh c2)\<lparr>adaptive_cycle_count := 0\<rparr>))"
    by (simp only: ph)
  then show ?thesis using osc fr sz ix tk2 len hs by auto
qed

lemmas eval_defs = ec_auto_duty_adjust_def auto_duty_adjust_with_def adaptive_phase_def
  pid_update_def adaptive_pid_add_temp_history_def adaptive_pid_tune_parameters_def
  adaptive_pid_calculate_performance_score_def adaptive_pid_calculate_oscillation_def
  clamp_lo_hi_def c_trunc_def controller_init_def daemon_init_share_def

lemma score_without_oscillation:
  assumes "adaptive_pid_calculate_oscillation c = 0"
  shows "adaptive_pid_calculate_performance_score sh c =
     clamp_lo_hi 0 1 (1 - \<bar>real_of_int (max (cpu_temp sh) (gpu_temp sh)) - real_of_int (target_temperature c)\<bar> / 50) * 0.6
     + 0.3
     + (if \<bar>real_of_int (max (cpu_temp sh) (gpu_temp sh)) - real_of_int (target_temperature c)\<bar> < 5
        then 1 - real_of_int (fan_duty sh) / 100 else 0) * 0.1"
  using assms by (simp add: adaptive_pid_calculate_performance_score_def Let_def clamp_lo_hi_def)


lemma first_tuning_tick:
  assumes "pid_enabled c \<noteq> 0" and "adaptive_pid_enabled c \<noteq> 0"
    and "adaptive_cycle_count c = 0" and "adaptive_temp_history_index c = 0"
    and "adaptive_temp_history_size c = 0" and "length (adaptive_temp_history c) = 60"
    and "int (Suc n) = adaptive_tuning_interval c" and "Suc n \<le> 60"
  shows "\<exists>c2.
           auto_duty_run_with tune c (replicate (Suc n) sh) =
             snd (pid_update
                    (real_of_int (max (cpu_temp sh) (gpu_temp sh)) - real_of_int (target_temperature c))
                    ((tune sh c2)\<lparr>adaptive_cycle_count := 0\<rparr>)) \<and>
           adaptive_pid_calculate_oscillation c2 = 0 \<and>
           c2\<lparr>adaptive_temp_history := adaptive_temp_history c,
              adaptive_temp_history_index := 0, adaptive_temp_history_size := 0,
              adaptive_cycle_count := 0,
              pid_integral := pid_integral c, pid_prev_error := pid_prev_error c\<rparr> = c"
  using tuning_tick [of c 0 sh n tune] assms by auto


section \<open>When the tuner runs\<close>






















section \<open>Write coalescing in the worker\<close>

lemma daemon_ec_worker_auto_write:
  assumes "auto_duty (share d) = 1"
    and "fst (ec_auto_duty_adjust (share d) (ctl d)) \<noteq> 0"
    and "fst (ec_auto_duty_adjust (share d) (ctl d)) \<noteq> auto_duty_val (share d)"
  shows "outb_log (ec (daemon_ec_worker_auto d)) =
           outb_log (ec d) @
             [(0x99, EC_SC), (0x01, EC_DATA),
              (word_of_int (fst (ec_auto_duty_adjust (share d) (ctl d)) * 255 div 100), EC_DATA)] \<and>
         auto_duty_val (share (daemon_ec_worker_auto d)) = fst (ec_auto_duty_adjust (share d) (ctl d))"
proof -
  have r: "1 \<le> fst (ec_auto_duty_adjust (share d) (ctl d))"
    "fst (ec_auto_duty_adjust (share d) (ctl d)) \<le> 100"
    using ec_auto_duty_adjust_duty_range [of "share d" "ctl d"] assms(2) by auto
  show ?thesis
    using assms ec_write_fan_duty_log [OF r, of "ec d"]
    by (simp add: daemon_ec_worker_auto_def split_beta Let_def)
qed

lemma daemon_ec_worker_auto_no_write:
  assumes "auto_duty (share d) = 1"
    and "fst (ec_auto_duty_adjust (share d) (ctl d)) = 0 \<or>
         fst (ec_auto_duty_adjust (share d) (ctl d)) = auto_duty_val (share d)"
  shows "ec (daemon_ec_worker_auto d) = ec d \<and>
         auto_duty_val (share (daemon_ec_worker_auto d)) = auto_duty_val (share d)"
  using assms by (auto simp add: daemon_ec_worker_auto_def split_beta Let_def)

text \<open>
  Claim C4, as amended. On a tick in auto mode, a fan-duty write is issued exactly when the
  new duty is not 0 and differs from \<open>auto_duty_val\<close>; the write is the transaction of
  \<open>ec_write_fan_duty\<close>, and \<open>auto_duty_val\<close> becomes the new duty whatever the write
  returned. When the new duty is 0 or equals \<open>auto_duty_val\<close>, the ports are untouched and
  \<open>auto_duty_val\<close> keeps its value.
\<close>

theorem auto_write_coalescing:
  assumes "auto_duty (share d) = 1"
  shows "(fst (ec_auto_duty_adjust (share d) (ctl d)) \<noteq> 0 \<and>
          fst (ec_auto_duty_adjust (share d) (ctl d)) \<noteq> auto_duty_val (share d) \<longrightarrow>
            outb_log (ec (daemon_ec_worker_auto d)) =
              outb_log (ec d) @
                [(0x99, EC_SC), (0x01, EC_DATA),
                 (word_of_int (fst (ec_auto_duty_adjust (share d) (ctl d)) * 255 div 100), EC_DATA)] \<and>
            auto_duty_val (share (daemon_ec_worker_auto d)) = fst (ec_auto_duty_adjust (share d) (ctl d))) \<and>
         (fst (ec_auto_duty_adjust (share d) (ctl d)) = 0 \<or>
          fst (ec_auto_duty_adjust (share d) (ctl d)) = auto_duty_val (share d) \<longrightarrow>
            ec (daemon_ec_worker_auto d) = ec d \<and>
            auto_duty_val (share (daemon_ec_worker_auto d)) = auto_duty_val (share d))"
  using daemon_ec_worker_auto_write [OF assms] daemon_ec_worker_auto_no_write [OF assms]
  by blast

lemma cool_duty: "fst (ec_auto_duty_adjust (share cool_daemon) (ctl cool_daemon)) = 0"
  by (simp add: cool_daemon_def sample_def eval_defs Let_def)

lemma stuck_duty: "fst (ec_auto_duty_adjust (share stuck_daemon) (ctl stuck_daemon)) = 8"
  by (simp add: stuck_daemon_def sample_def eval_defs Let_def)

lemma stuck_write_fails: "fst (ec_write_fan_duty 8 stuck_ec) = EXIT_FAILURE"
  by code_simp

text \<open>
  Claim C4 as stated fails twice. With 20 percent last written and a new duty of 0, the two
  differ and nothing is written. On an EC that never answers, the write of 8 percent
  returns \<open>EXIT_FAILURE\<close> and \<open>auto_duty_val\<close> is 8 all the same.
\<close>

theorem auto_write_coalescing_counterexample:
  "auto_duty (share cool_daemon) = 1 \<and>
   fst (ec_auto_duty_adjust (share cool_daemon) (ctl cool_daemon)) = 0 \<and>
   auto_duty_val (share cool_daemon) = 20 \<and>
   ec (daemon_ec_worker_auto cool_daemon) = ec cool_daemon \<and>
   auto_duty (share stuck_daemon) = 1 \<and>
   fst (ec_auto_duty_adjust (share stuck_daemon) (ctl stuck_daemon)) = 8 \<and>
   fst (ec_write_fan_duty 8 (ec stuck_daemon)) = EXIT_FAILURE \<and>
   auto_duty_val (share stuck_daemon) = 0 \<and>
   auto_duty_val (share (daemon_ec_worker_auto stuck_daemon)) = 8"
proof -
  have a: "auto_duty (share cool_daemon) = 1" "auto_duty_val (share cool_daemon) = 20"
    by (simp_all add: cool_daemon_def sample_def daemon_init_share_def)
  have b: "auto_duty (share stuck_daemon) = 1" "auto_duty_val (share stuck_daemon) = 0"
    "ec stuck_daemon = stuck_ec"
    by (simp_all add: stuck_daemon_def sample_def daemon_init_share_def)
  have c: "ec (daemon_ec_worker_auto cool_daemon) = ec cool_daemon"
    using daemon_ec_worker_auto_no_write [OF a(1)] cool_duty by simp
  have d: "auto_duty_val (share (daemon_ec_worker_auto stuck_daemon)) = 8"
    using daemon_ec_worker_auto_write [OF b(1)] stuck_duty b(2) by simp
  show ?thesis using a b c d cool_duty stuck_duty stuck_write_fails by simp
qed

theorem auto_write_coalescing_witness:
  "auto_duty (share stuck_daemon) = 1 \<and>
   outb_log (ec (daemon_ec_worker_auto stuck_daemon)) = [(0x99, EC_SC), (0x01, EC_DATA), (20, EC_DATA)] \<and>
   auto_duty_val (share (daemon_ec_worker_auto stuck_daemon)) = 8 \<and>
   auto_duty (share cool_daemon) = 1 \<and>
   ec (daemon_ec_worker_auto cool_daemon) = ec cool_daemon \<and>
   auto_duty_val (share (daemon_ec_worker_auto cool_daemon)) = auto_duty_val (share cool_daemon)"
proof -
  have a: "auto_duty (share cool_daemon) = 1"
    by (simp add: cool_daemon_def sample_def daemon_init_share_def)
  have b: "auto_duty (share stuck_daemon) = 1" "auto_duty_val (share stuck_daemon) = 0"
    "outb_log (ec stuck_daemon) = []"
    by (simp_all add: stuck_daemon_def sample_def daemon_init_share_def stuck_ec_def)
  show ?thesis
    using auto_write_coalescing [OF a] auto_write_coalescing [OF b(1)] a b cool_duty stuck_duty
    by simp
qed

section \<open>Ranges of the gains\<close>

lemma tune_gains_in_range:
  "gains_in_range c \<Longrightarrow> gains_in_range (adaptive_pid_tune_parameters sh c)"
  using tune_ki_kd_range [of sh c] tune_kp_adjusted [of sh c] tune_kp_untouched [of sh c]
  by (cases "adaptive_pid_calculate_performance_score sh c < adaptive_target_performance c")
    (simp_all add: gains_in_range_def)

lemma indicator_tune_gains_in_range:
  "gains_in_range c \<Longrightarrow> gains_in_range (indicator_adaptive_pid_tune_parameters sh c)"
  using indicator_tune_ki_kd_range [of sh c] indicator_tune_kp_adjusted [of sh c]
    indicator_tune_kp_untouched [of sh c]
  by (cases "adaptive_pid_calculate_performance_score sh c < adaptive_target_performance c")
    (simp_all add: gains_in_range_def)

lemma adaptive_phase_gains_in_range:
  assumes "\<And>s k. gains_in_range k \<Longrightarrow> gains_in_range (tune s k)"
    and "gains_in_range c"
  shows "gains_in_range (adaptive_phase tune sh c)"
proof -
  let ?c2 = "(adaptive_pid_add_temp_history (max (cpu_temp sh) (gpu_temp sh)) c)
               \<lparr>adaptive_cycle_count :=
                  adaptive_cycle_count (adaptive_pid_add_temp_history (max (cpu_temp sh) (gpu_temp sh)) c) + 1\<rparr>"
  have g2: "gains_in_range ?c2"
    using assms(2) by (simp add: gains_in_range_def adaptive_pid_add_temp_history_def)
  have "gains_in_range ((tune sh ?c2)\<lparr>adaptive_cycle_count := 0\<rparr>)"
    using assms(1) [OF g2] by (simp add: gains_in_range_def)
  then show ?thesis
    using g2 assms(2) by (simp add: adaptive_phase_def Let_def)
qed

lemma auto_duty_adjust_with_gains_in_range:
  assumes "\<And>s k. gains_in_range k \<Longrightarrow> gains_in_range (tune s k)"
    and "gains_in_range c"
  shows "gains_in_range (snd (auto_duty_adjust_with tune sh c))"
proof (cases "pid_enabled c = 0")
  case True
  then show ?thesis using assms(2) by (simp add: auto_duty_adjust_with_def Let_def)
next
  case False
  then show ?thesis
    using adaptive_phase_gains_in_range [of tune c sh, OF assms]
    by (simp add: auto_duty_adjust_with_enabled gains_in_range_def pid_update_frame)
qed

lemma auto_duty_run_with_gains_in_range:
  assumes "\<And>s k. gains_in_range k \<Longrightarrow> gains_in_range (tune s k)"
    and "gains_in_range c"
  shows "gains_in_range (auto_duty_run_with tune c shs)"
  using assms(2)
  by (induction shs arbitrary: c) (simp_all add: auto_duty_adjust_with_gains_in_range [OF assms(1)])

text \<open>
  Claim C5, as amended, for the tuner of either program and for every state of the
  controller, that is, whenever the \<^verbatim>\<open>double\<close> variables hold numbers. After a pass Ki is in
  [0.01, 0.5] and Kd is in [0.1, 2.0]. Kp is clamped to [0.5, 5.0] in a pass that adjusts it
  (score below the target performance); a pass that does not adjust it leaves it as it was.
  So gains that are in range stay in range along every run, which covers the daemon, whose
  gains start at 2.0, 0.1, 0.5 and cannot be set from the command line.
\<close>

theorem tuner_gain_ranges:
  assumes "tune = adaptive_pid_tune_parameters \<or> tune = indicator_adaptive_pid_tune_parameters"
  shows "0.01 \<le> pid_ki (tune sh c) \<and> pid_ki (tune sh c) \<le> 0.5 \<and>
         0.1 \<le> pid_kd (tune sh c) \<and> pid_kd (tune sh c) \<le> 2.0 \<and>
         (adaptive_pid_calculate_performance_score sh c < adaptive_target_performance c \<longrightarrow>
            0.5 \<le> pid_kp (tune sh c) \<and> pid_kp (tune sh c) \<le> 5.0) \<and>
         (\<not> adaptive_pid_calculate_performance_score sh c < adaptive_target_performance c \<longrightarrow>
            pid_kp (tune sh c) = pid_kp c) \<and>
         (gains_in_range c \<longrightarrow> gains_in_range (auto_duty_run_with tune c shs))"
proof -
  have "\<And>s k. gains_in_range k \<Longrightarrow> gains_in_range (tune s k)"
    using assms tune_gains_in_range indicator_tune_gains_in_range by blast
  then have "gains_in_range c \<longrightarrow> gains_in_range (auto_duty_run_with tune c shs)"
    using auto_duty_run_with_gains_in_range [of tune c shs] by blast
  then show ?thesis
    using assms tune_ki_kd_range [of sh c] indicator_tune_ki_kd_range [of sh c]
      tune_kp_adjusted [of sh c] tune_kp_untouched [of sh c]
      indicator_tune_kp_adjusted [of sh c] indicator_tune_kp_untouched [of sh c]
    by blast
qed

lemma init_score_warm:
  "adaptive_pid_calculate_performance_score (sample 85 85 20) controller_init = 0.66"
  by (simp add: eval_defs sample_def Let_def)

theorem tuner_gain_ranges_witness:
  "adaptive_pid_calculate_performance_score (sample 85 85 20) controller_init
     < adaptive_target_performance controller_init \<and>
   gains_in_range controller_init \<and>
   0.01 \<le> pid_ki (adaptive_pid_tune_parameters (sample 85 85 20) controller_init) \<and>
   pid_ki (adaptive_pid_tune_parameters (sample 85 85 20) controller_init) \<le> 0.5 \<and>
   0.1 \<le> pid_kd (adaptive_pid_tune_parameters (sample 85 85 20) controller_init) \<and>
   pid_kd (adaptive_pid_tune_parameters (sample 85 85 20) controller_init) \<le> 2.0 \<and>
   0.5 \<le> pid_kp (adaptive_pid_tune_parameters (sample 85 85 20) controller_init) \<and>
   pid_kp (adaptive_pid_tune_parameters (sample 85 85 20) controller_init) \<le> 5.0 \<and>
   gains_in_range (auto_duty_run_with adaptive_pid_tune_parameters controller_init
                     [sample 85 85 20, sample 45 45 20])"
proof -
  have a: "adaptive_pid_calculate_performance_score (sample 85 85 20) controller_init
      < adaptive_target_performance controller_init"
    by (simp add: init_score_warm) (simp add: controller_init_def)
  have b: "gains_in_range controller_init" by (simp add: gains_in_range_def controller_init_def)
  show ?thesis
    using tuner_gain_ranges [of adaptive_pid_tune_parameters "sample 85 85 20" controller_init
        "[sample 85 85 20, sample 45 45 20]"] a b
    by simp
qed

section \<open>Gains from the indicator's command line\<close>

text \<open>
  On a number, the clamp of a start-up option is the clamp of the tuner; a NaN passes both
  of its tests and is left as it is.
\<close>

lemma clamp_double_Num: "clamp_double lo hi (Num x) = Num (clamp_lo_hi lo hi x)"
  by (simp add: clamp_double_def clamp_lo_hi_def Let_def)

lemma clamp_double_NaN: "clamp_double lo hi NaN = NaN"
  by (simp add: clamp_double_def)

text \<open>
  With \<^verbatim>\<open>--status --pid-kp 10\<close> the program enters the status loop with Kp = 10. Without
  \<^verbatim>\<open>--status\<close> it takes the value \<^verbatim>\<open>10\<close> for the fan-duty argument and exits. With
  \<^verbatim>\<open>--pid-ki nan\<close> the variable \<^verbatim>\<open>pid_ki\<close> holds NaN when the loop is entered, and the
  controller has no state in this model.
\<close>

lemma main_status_example:
  "indicator_main example_atof example_atoi True display
     [''clevo-indicator'', ''--status'', ''--pid-kp'', ''10''] =
   Status_loop (Some (controller_init\<lparr>pid_kp := 10\<rparr>))"
  by (simp add: indicator_main_def indicator_parse_command_line_def value_options_def
      set_option_def example_atof_def startup_init_def controller_of_startup_def controller_init_def)

lemma main_without_status_exits:
  "indicator_main example_atof example_atoi True display [''clevo-indicator'', ''--pid-kp'', ''10''] = Exits"
  by (simp add: indicator_main_def indicator_parse_command_line_def value_options_def
      set_option_def example_atof_def example_atoi_def startup_init_def)

lemma main_nan_example:
  "indicator_main example_atof example_atoi True display
     [''clevo-indicator'', ''--status'', ''--pid-ki'', ''nan''] = Status_loop None"
  by (simp add: indicator_main_def indicator_parse_command_line_def value_options_def
      set_option_def example_atof_def startup_init_def controller_of_startup_def)

text \<open>
  In the status loop the controller goes through the updates of \<^verbatim>\<open>ec_auto_duty_adjust\<close> on
  the readings: the update reads the two temperatures and the fan duty of the shared
  structure only, and the loop never leaves auto mode.
\<close>

lemma score_cong:
  assumes "cpu_temp a = cpu_temp b" "gpu_temp a = gpu_temp b" "fan_duty a = fan_duty b"
  shows "adaptive_pid_calculate_performance_score a c = adaptive_pid_calculate_performance_score b c"
  using assms by (simp add: adaptive_pid_calculate_performance_score_def)

lemma indicator_tune_cong:
  assumes "cpu_temp a = cpu_temp b" "gpu_temp a = gpu_temp b" "fan_duty a = fan_duty b"
  shows "indicator_adaptive_pid_tune_parameters a c = indicator_adaptive_pid_tune_parameters b c"
  using assms score_cong [OF assms, of c] by (simp add: indicator_adaptive_pid_tune_parameters_def)

lemma indicator_adjust_cong:
  assumes "cpu_temp a = cpu_temp b" "gpu_temp a = gpu_temp b" "fan_duty a = fan_duty b"
  shows "indicator_ec_auto_duty_adjust a c = indicator_ec_auto_duty_adjust b c"
  using assms
  by (simp add: indicator_ec_auto_duty_adjust_def auto_duty_adjust_with_def adaptive_phase_def
      indicator_tune_cong [OF assms] Let_def)

lemma status_tick_controller:
  assumes "auto_duty (fst st) = 1"
  shows "snd (status_display_update_with_control readings st) =
           snd (indicator_ec_auto_duty_adjust readings (snd st))"
    and "auto_duty (fst (status_display_update_with_control readings st)) = 1"
proof -
  let ?sh = "(fst st)\<lparr>cpu_temp := cpu_temp readings, gpu_temp := gpu_temp readings,
                        fan_duty := fan_duty readings, fan_rpms := fan_rpms readings\<rparr>"
  have "indicator_ec_auto_duty_adjust ?sh (snd st) = indicator_ec_auto_duty_adjust readings (snd st)"
    by (rule indicator_adjust_cong) simp_all
  then show "snd (status_display_update_with_control readings st) =
           snd (indicator_ec_auto_duty_adjust readings (snd st))"
    using assms by (simp add: status_display_update_with_control_def Let_def split_beta)
  show "auto_duty (fst (status_display_update_with_control readings st)) = 1"
    using assms by (simp add: status_display_update_with_control_def Let_def split_beta)
qed

lemma status_loop_controller:
  "auto_duty (fst st) = 1 \<Longrightarrow> snd (status_loop st rs) = indicator_auto_duty_run (snd st) rs"
proof (induction rs arbitrary: st)
  case Nil
  show ?case by (simp add: indicator_auto_duty_run_def)
next
  case (Cons r rs)
  have "snd (status_loop (status_display_update_with_control r st) rs) =
      indicator_auto_duty_run (snd (status_display_update_with_control r st)) rs"
    using Cons.prems by (intro Cons.IH status_tick_controller(2))
  then show ?case
    using Cons.prems
    by (simp add: status_tick_controller(1) indicator_auto_duty_run_def indicator_ec_auto_duty_adjust_def)
qed

lemma indicator_tune_learning_cycles:
  "adaptive_learning_cycles (indicator_adaptive_pid_tune_parameters sh c) = adaptive_learning_cycles c + 1"
  by (simp add: indicator_adaptive_pid_tune_parameters_def Let_def)

lemma cli_kp_survives_pass:
  "pid_kp (indicator_auto_duty_run (controller_init\<lparr>pid_kp := 10\<rparr>) (replicate 30 (sample 65 65 0))) = 10 \<and>
   adaptive_learning_cycles
     (indicator_auto_duty_run (controller_init\<lparr>pid_kp := 10\<rparr>) (replicate 30 (sample 65 65 0))) = 1"
proof -
  let ?c = "controller_init\<lparr>pid_kp := 10\<rparr>"
  let ?s = "sample 65 65 0"
  have "\<exists>c2.
           auto_duty_run_with indicator_adaptive_pid_tune_parameters ?c (replicate (Suc 29) ?s) =
             snd (pid_update
                    (real_of_int (max (cpu_temp ?s) (gpu_temp ?s)) - real_of_int (target_temperature ?c))
                    ((indicator_adaptive_pid_tune_parameters ?s c2)\<lparr>adaptive_cycle_count := 0\<rparr>)) \<and>
           adaptive_pid_calculate_oscillation c2 = 0 \<and>
           c2\<lparr>adaptive_temp_history := adaptive_temp_history ?c,
              adaptive_temp_history_index := 0, adaptive_temp_history_size := 0,
              adaptive_cycle_count := 0,
              pid_integral := pid_integral ?c,
              pid_prev_error := pid_prev_error ?c\<rparr> = ?c"
    by (rule first_tuning_tick) (simp_all add: controller_init_def)
  then obtain c2 where
    run: "indicator_auto_duty_run ?c (replicate 30 ?s) =
             snd (pid_update
                    (real_of_int (max (cpu_temp ?s) (gpu_temp ?s)) - real_of_int (target_temperature ?c))
                    ((indicator_adaptive_pid_tune_parameters ?s c2)\<lparr>adaptive_cycle_count := 0\<rparr>))"
    and osc: "adaptive_pid_calculate_oscillation c2 = 0"
    and fr: "c2\<lparr>adaptive_temp_history := adaptive_temp_history ?c,
              adaptive_temp_history_index := 0, adaptive_temp_history_size := 0,
              adaptive_cycle_count := 0,
              pid_integral := pid_integral ?c,
              pid_prev_error := pid_prev_error ?c\<rparr> = ?c"
    by (auto simp add: indicator_auto_duty_run_def)
  have f: "pid_kp c2 = 10" "adaptive_learning_cycles c2 = 0"
    "adaptive_target_performance c2 = 0.8" "target_temperature c2 = 65"
    using arg_cong [OF fr, of pid_kp] arg_cong [OF fr, of adaptive_learning_cycles]
      arg_cong [OF fr, of adaptive_target_performance]
      arg_cong [OF fr, of target_temperature]
    by (simp_all add: controller_init_def)
  have sc: "adaptive_pid_calculate_performance_score ?s c2 = 1"
    by (simp add: score_without_oscillation [OF osc] f sample_def daemon_init_share_def clamp_lo_hi_def)
  have "pid_kp (indicator_adaptive_pid_tune_parameters ?s c2) = pid_kp c2"
    by (rule indicator_tune_kp_untouched) (simp add: sc f)
  then show ?thesis
    by (simp add: run pid_update_def Let_def f indicator_tune_learning_cycles)
qed

text \<open>
  Claim C5 as stated fails in the indicator program started with
  \<^verbatim>\<open>--status --pid-kp 10\<close>: the status loop is entered with Kp = 10, and after thirty
  passes that read the target temperature with the fan off, one tuner pass has run and Kp
  is still 10.
\<close>

theorem cli_gain_outside_range_counterexample:
  "indicator_main example_atof example_atoi True True
     [''clevo-indicator'', ''--status'', ''--pid-kp'', ''10''] =
     Status_loop (Some (controller_init\<lparr>pid_kp := 10\<rparr>)) \<and>
   adaptive_learning_cycles
     (snd (status_loop (main_init_share, controller_init\<lparr>pid_kp := 10\<rparr>)
             (replicate 30 (sample 65 65 0)))) = 1 \<and>
   pid_kp
     (snd (status_loop (main_init_share, controller_init\<lparr>pid_kp := 10\<rparr>)
             (replicate 30 (sample 65 65 0)))) = 10"
proof -
  have "auto_duty (fst (main_init_share, controller_init\<lparr>pid_kp := 10\<rparr>)) = 1"
    by (simp add: main_init_share_def)
  then have "snd (status_loop (main_init_share, controller_init\<lparr>pid_kp := 10\<rparr>)
                    (replicate 30 (sample 65 65 0))) =
      indicator_auto_duty_run (controller_init\<lparr>pid_kp := 10\<rparr>) (replicate 30 (sample 65 65 0))"
    by (simp only: status_loop_controller snd_conv)
  then show ?thesis
    using main_status_example [of True] cli_kp_survives_pass by (simp only:)
qed

section \<open>Two tuner passes, the second a regression\<close>

lemma tune_bookkeeping:
  "adaptive_temp_history (adaptive_pid_tune_parameters s k) = adaptive_temp_history k \<and>
   adaptive_temp_history_index (adaptive_pid_tune_parameters s k) = adaptive_temp_history_index k \<and>
   adaptive_temp_history_size (adaptive_pid_tune_parameters s k) = adaptive_temp_history_size k \<and>
   adaptive_pid_enabled (adaptive_pid_tune_parameters s k) = adaptive_pid_enabled k \<and>
   pid_enabled (adaptive_pid_tune_parameters s k) = pid_enabled k \<and>
   adaptive_tuning_interval (adaptive_pid_tune_parameters s k) = adaptive_tuning_interval k \<and>
   adaptive_target_performance (adaptive_pid_tune_parameters s k) = adaptive_target_performance k \<and>
   target_temperature (adaptive_pid_tune_parameters s k) = target_temperature k \<and>
   adaptive_prev_score (adaptive_pid_tune_parameters s k) = adaptive_pid_calculate_performance_score s k \<and>
   adaptive_learning_cycles (adaptive_pid_tune_parameters s k) = adaptive_learning_cycles k + 1"
  by (simp add: adaptive_pid_tune_parameters_def Let_def)

lemma indicator_tune_bookkeeping:
  "adaptive_temp_history (indicator_adaptive_pid_tune_parameters s k) = adaptive_temp_history k \<and>
   adaptive_temp_history_index (indicator_adaptive_pid_tune_parameters s k) = adaptive_temp_history_index k \<and>
   adaptive_temp_history_size (indicator_adaptive_pid_tune_parameters s k) = adaptive_temp_history_size k \<and>
   adaptive_pid_enabled (indicator_adaptive_pid_tune_parameters s k) = adaptive_pid_enabled k \<and>
   pid_enabled (indicator_adaptive_pid_tune_parameters s k) = pid_enabled k \<and>
   adaptive_tuning_interval (indicator_adaptive_pid_tune_parameters s k) = adaptive_tuning_interval k \<and>
   adaptive_target_performance (indicator_adaptive_pid_tune_parameters s k) = adaptive_target_performance k \<and>
   target_temperature (indicator_adaptive_pid_tune_parameters s k) = target_temperature k \<and>
   adaptive_prev_score (indicator_adaptive_pid_tune_parameters s k) = adaptive_pid_calculate_performance_score s k \<and>
   adaptive_learning_cycles (indicator_adaptive_pid_tune_parameters s k) = adaptive_learning_cycles k + 1"
  by (simp add: indicator_adaptive_pid_tune_parameters_def Let_def)

lemma pid_update_snd_eq:
  "snd (pid_update e c) =
     c\<lparr>pid_integral := pid_integral (snd (pid_update e c)), pid_prev_error := e\<rparr>"
  by (simp add: pid_update_def Let_def)

lemma pid_update_snd:
  "\<exists>i. snd (pid_update e c) = c\<lparr>pid_integral := i, pid_prev_error := e\<rparr>"
  using pid_update_snd_eq [of e c] by blast

lemma two_passes:
  assumes bk: "\<And>s k.
      adaptive_temp_history (tune s k) = adaptive_temp_history k \<and>
      adaptive_temp_history_index (tune s k) = adaptive_temp_history_index k \<and>
      adaptive_temp_history_size (tune s k) = adaptive_temp_history_size k \<and>
      adaptive_pid_enabled (tune s k) = adaptive_pid_enabled k \<and>
      pid_enabled (tune s k) = pid_enabled k \<and>
      adaptive_tuning_interval (tune s k) = adaptive_tuning_interval k \<and>
      adaptive_target_performance (tune s k) = adaptive_target_performance k \<and>
      target_temperature (tune s k) = target_temperature k \<and>
      adaptive_prev_score (tune s k) = adaptive_pid_calculate_performance_score s k \<and>
      adaptive_learning_cycles (tune s k) = adaptive_learning_cycles k + 1"
    and temps: "max (cpu_temp s1) (gpu_temp s1) = max (cpu_temp s2) (gpu_temp s2)"
  shows "\<exists>c2 c3 i1 e1 i2 e2.
           auto_duty_run_with tune controller_init (replicate 30 s1) =
             (tune s1 c2)\<lparr>adaptive_cycle_count := 0, pid_integral := i1, pid_prev_error := e1\<rparr> \<and>
           adaptive_pid_calculate_oscillation c2 = 0 \<and>
           c2\<lparr>adaptive_temp_history := adaptive_temp_history controller_init,
              adaptive_temp_history_index := 0, adaptive_temp_history_size := 0,
              adaptive_cycle_count := 0,
              pid_integral := 0, pid_prev_error := 0\<rparr> = controller_init \<and>
           auto_duty_run_with tune controller_init (replicate 30 s1 @ replicate 30 s2) =
             (tune s2 c3)\<lparr>adaptive_cycle_count := 0, pid_integral := i2, pid_prev_error := e2\<rparr> \<and>
           adaptive_pid_calculate_oscillation c3 = 0 \<and>
           adaptive_prev_score c3 = adaptive_pid_calculate_performance_score s1 c2 \<and>
           adaptive_learning_cycles c3 = 1 \<and>
           adaptive_target_performance c3 = 0.8 \<and>
           target_temperature c3 = 65 \<and>
           adaptive_kp_step c3 = adaptive_kp_step (tune s1 c2) \<and>
           adaptive_ki_step c3 = adaptive_ki_step (tune s1 c2) \<and>
           adaptive_kd_step c3 = adaptive_kd_step (tune s1 c2)"
proof -
  let ?t = "real_of_int (max (cpu_temp s1) (gpu_temp s1))"
  let ?c0 = controller_init
  have "\<exists>c2.
           auto_duty_run_with tune ?c0 (replicate (Suc 29) s1) =
             snd (pid_update (?t - real_of_int (target_temperature ?c0))
                    ((tune s1 c2)\<lparr>adaptive_cycle_count := 0\<rparr>)) \<and>
           adaptive_pid_calculate_oscillation c2 = 0 \<and>
           adaptive_temp_history_size c2 = 0 + Suc 29 \<and>
           adaptive_temp_history_index c2 = (0 + Suc 29) mod 60 \<and>
           length (adaptive_temp_history c2) = 60 \<and>
           take (0 + Suc 29) (adaptive_temp_history c2) = replicate (0 + Suc 29) ?t \<and>
           c2\<lparr>adaptive_temp_history := adaptive_temp_history ?c0,
              adaptive_temp_history_index := 0, adaptive_temp_history_size := 0,
              adaptive_cycle_count := 0,
              pid_integral := pid_integral ?c0, pid_prev_error := pid_prev_error ?c0\<rparr> = ?c0"
    by (rule tuning_tick) (simp_all add: controller_init_def)
  then obtain c2 where
    run1: "auto_duty_run_with tune ?c0 (replicate 30 s1) =
             snd (pid_update (?t - real_of_int (target_temperature ?c0))
                    ((tune s1 c2)\<lparr>adaptive_cycle_count := 0\<rparr>))"
    and osc2: "adaptive_pid_calculate_oscillation c2 = 0"
    and sz2: "adaptive_temp_history_size c2 = 30"
    and ix2: "adaptive_temp_history_index c2 = 30"
    and len2: "length (adaptive_temp_history c2) = 60"
    and tk2: "take 30 (adaptive_temp_history c2) = replicate 30 ?t"
    and fr2: "c2\<lparr>adaptive_temp_history := adaptive_temp_history ?c0,
              adaptive_temp_history_index := 0, adaptive_temp_history_size := 0,
              adaptive_cycle_count := 0,
              pid_integral := pid_integral ?c0, pid_prev_error := pid_prev_error ?c0\<rparr> = ?c0"
    by auto
  have fr2': "c2\<lparr>adaptive_temp_history := adaptive_temp_history ?c0,
              adaptive_temp_history_index := 0, adaptive_temp_history_size := 0,
              adaptive_cycle_count := 0, pid_integral := 0, pid_prev_error := 0\<rparr> = ?c0"
    using fr2 by (simp add: controller_init_def)
  have f2: "pid_enabled c2 = 1" "adaptive_pid_enabled c2 = 1" "adaptive_tuning_interval c2 = 30"
    "adaptive_target_performance c2 = 0.8" "target_temperature c2 = 65"
    "adaptive_learning_cycles c2 = 0"
    using arg_cong [OF fr2, of pid_enabled] arg_cong [OF fr2, of adaptive_pid_enabled]
      arg_cong [OF fr2, of adaptive_tuning_interval]
      arg_cong [OF fr2, of adaptive_target_performance]
      arg_cong [OF fr2, of target_temperature] arg_cong [OF fr2, of adaptive_learning_cycles]
    by (simp_all add: controller_init_def)
  obtain i1 where i1: "snd (pid_update (?t - real_of_int (target_temperature ?c0))
                    ((tune s1 c2)\<lparr>adaptive_cycle_count := 0\<rparr>)) =
      (tune s1 c2)\<lparr>adaptive_cycle_count := 0, pid_integral := i1,
        pid_prev_error := ?t - real_of_int (target_temperature ?c0)\<rparr>"
    using pid_update_snd [of "?t - real_of_int (target_temperature ?c0)"
        "(tune s1 c2)\<lparr>adaptive_cycle_count := 0\<rparr>"] by auto
  define r1 where "r1 = auto_duty_run_with tune ?c0 (replicate 30 s1)"
  have r1: "r1 = (tune s1 c2)\<lparr>adaptive_cycle_count := 0, pid_integral := i1,
        pid_prev_error := ?t - real_of_int (target_temperature ?c0)\<rparr>"
    by (simp only: r1_def run1 i1)
  have g1: "pid_enabled r1 \<noteq> 0" "adaptive_pid_enabled r1 \<noteq> 0" "adaptive_cycle_count r1 = 0"
    "adaptive_temp_history_index r1 = 30" "adaptive_temp_history_size r1 = 30"
    "length (adaptive_temp_history r1) = 60"
    "take 30 (adaptive_temp_history r1) = replicate 30 (real_of_int (max (cpu_temp s2) (gpu_temp s2)))"
    "int (Suc 29) = adaptive_tuning_interval r1" "30 + Suc 29 \<le> (60::nat)"
    using bk [of s1 c2] f2 sz2 ix2 len2 tk2 temps by (simp_all add: r1)
  have "\<exists>c3.
           auto_duty_run_with tune r1 (replicate (Suc 29) s2) =
             snd (pid_update
                    (real_of_int (max (cpu_temp s2) (gpu_temp s2)) - real_of_int (target_temperature r1))
                    ((tune s2 c3)\<lparr>adaptive_cycle_count := 0\<rparr>)) \<and>
           adaptive_pid_calculate_oscillation c3 = 0 \<and>
           adaptive_temp_history_size c3 = 30 + Suc 29 \<and>
           adaptive_temp_history_index c3 = (30 + Suc 29) mod 60 \<and>
           length (adaptive_temp_history c3) = 60 \<and>
           take (30 + Suc 29) (adaptive_temp_history c3) =
             replicate (30 + Suc 29) (real_of_int (max (cpu_temp s2) (gpu_temp s2))) \<and>
           c3\<lparr>adaptive_temp_history := adaptive_temp_history r1,
              adaptive_temp_history_index := 30, adaptive_temp_history_size := 30,
              adaptive_cycle_count := 0,
              pid_integral := pid_integral r1, pid_prev_error := pid_prev_error r1\<rparr> = r1"
    by (rule tuning_tick [OF g1])
  then obtain c3 where
    run2: "auto_duty_run_with tune r1 (replicate 30 s2) =
             snd (pid_update
                    (real_of_int (max (cpu_temp s2) (gpu_temp s2)) - real_of_int (target_temperature r1))
                    ((tune s2 c3)\<lparr>adaptive_cycle_count := 0\<rparr>))"
    and osc3: "adaptive_pid_calculate_oscillation c3 = 0"
    and fr3: "c3\<lparr>adaptive_temp_history := adaptive_temp_history r1,
              adaptive_temp_history_index := 30, adaptive_temp_history_size := 30,
              adaptive_cycle_count := 0,
              pid_integral := pid_integral r1, pid_prev_error := pid_prev_error r1\<rparr> = r1"
    by auto
  obtain i2 where i2: "snd (pid_update
                    (real_of_int (max (cpu_temp s2) (gpu_temp s2)) - real_of_int (target_temperature r1))
                    ((tune s2 c3)\<lparr>adaptive_cycle_count := 0\<rparr>)) =
      (tune s2 c3)\<lparr>adaptive_cycle_count := 0, pid_integral := i2,
        pid_prev_error := real_of_int (max (cpu_temp s2) (gpu_temp s2)) - real_of_int (target_temperature r1)\<rparr>"
    using pid_update_snd [of "real_of_int (max (cpu_temp s2) (gpu_temp s2)) - real_of_int (target_temperature r1)"
        "(tune s2 c3)\<lparr>adaptive_cycle_count := 0\<rparr>"] by auto
  have run60: "auto_duty_run_with tune ?c0 (replicate 30 s1 @ replicate 30 s2) =
      (tune s2 c3)\<lparr>adaptive_cycle_count := 0, pid_integral := i2,
        pid_prev_error := real_of_int (max (cpu_temp s2) (gpu_temp s2)) - real_of_int (target_temperature r1)\<rparr>"
    by (simp only: auto_duty_run_with_append r1_def [symmetric] run2 i2)
  have f3: "adaptive_prev_score c3 = adaptive_pid_calculate_performance_score s1 c2"
    "adaptive_learning_cycles c3 = 1" "adaptive_target_performance c3 = 0.8"
    "target_temperature c3 = 65"
    "adaptive_kp_step c3 = adaptive_kp_step (tune s1 c2)"
    "adaptive_ki_step c3 = adaptive_ki_step (tune s1 c2)"
    "adaptive_kd_step c3 = adaptive_kd_step (tune s1 c2)"
    using arg_cong [OF fr3, of adaptive_prev_score] arg_cong [OF fr3, of adaptive_learning_cycles]
      arg_cong [OF fr3, of adaptive_target_performance] arg_cong [OF fr3, of target_temperature]
      arg_cong [OF fr3, of adaptive_kp_step] arg_cong [OF fr3, of adaptive_ki_step]
      arg_cong [OF fr3, of adaptive_kd_step] bk [of s1 c2] f2
    by (simp_all add: r1)
  show ?thesis
    using r1 [unfolded r1_def] osc2 fr2' run60 osc3 f3 by blast
qed

lemma score_at_target_fan_off:
  "adaptive_pid_calculate_oscillation c = 0 \<Longrightarrow> target_temperature c = 65 \<Longrightarrow>
     adaptive_pid_calculate_performance_score (sample 65 65 0) c = 1"
  by (simp add: score_without_oscillation sample_def daemon_init_share_def clamp_lo_hi_def)

lemma score_at_target_fan_full:
  "adaptive_pid_calculate_oscillation c = 0 \<Longrightarrow> target_temperature c = 65 \<Longrightarrow>
     adaptive_pid_calculate_performance_score (sample 65 65 100) c = 0.9"
  by (simp add: score_without_oscillation sample_def daemon_init_share_def clamp_lo_hi_def)

lemma same_temperature:
  "max (cpu_temp (sample 65 65 0)) (gpu_temp (sample 65 65 0)) =
   max (cpu_temp (sample 65 65 100)) (gpu_temp (sample 65 65 100))"
  by (simp add: sample_def)

lemma indicator_regression_run:
  "adaptive_prev_score (indicator_auto_duty_run controller_init (replicate 30 (sample 65 65 0))) = 1 \<and>
   adaptive_prev_score (indicator_auto_duty_run controller_init
       (replicate 30 (sample 65 65 0) @ replicate 30 (sample 65 65 100))) = 0.9 \<and>
   adaptive_learning_cycles (indicator_auto_duty_run controller_init
       (replicate 30 (sample 65 65 0) @ replicate 30 (sample 65 65 100))) = 2 \<and>
   adaptive_kp_step (indicator_auto_duty_run controller_init
       (replicate 30 (sample 65 65 0) @ replicate 30 (sample 65 65 100))) = 0.1 \<and>
   adaptive_ki_step (indicator_auto_duty_run controller_init
       (replicate 30 (sample 65 65 0) @ replicate 30 (sample 65 65 100))) = 0.01 \<and>
   adaptive_kd_step (indicator_auto_duty_run controller_init
       (replicate 30 (sample 65 65 0) @ replicate 30 (sample 65 65 100))) = 0.05"
proof -
  let ?T = indicator_adaptive_pid_tune_parameters
  let ?s1 = "sample 65 65 0" and ?s2 = "sample 65 65 100"
  from two_passes [of ?T ?s1 ?s2, OF indicator_tune_bookkeeping same_temperature]
  obtain c2 c3 i1 e1 i2 e2 where
    r1: "auto_duty_run_with ?T controller_init (replicate 30 ?s1) =
           (?T ?s1 c2)\<lparr>adaptive_cycle_count := 0, pid_integral := i1, pid_prev_error := e1\<rparr>"
    and osc2: "adaptive_pid_calculate_oscillation c2 = 0"
    and fr2: "c2\<lparr>adaptive_temp_history := adaptive_temp_history controller_init,
              adaptive_temp_history_index := 0, adaptive_temp_history_size := 0,
              adaptive_cycle_count := 0, pid_integral := 0, pid_prev_error := 0\<rparr> = controller_init"
    and r2: "auto_duty_run_with ?T controller_init (replicate 30 ?s1 @ replicate 30 ?s2) =
           (?T ?s2 c3)\<lparr>adaptive_cycle_count := 0, pid_integral := i2, pid_prev_error := e2\<rparr>"
    and osc3: "adaptive_pid_calculate_oscillation c3 = 0"
    and f3: "adaptive_prev_score c3 = adaptive_pid_calculate_performance_score ?s1 c2"
      "adaptive_learning_cycles c3 = 1" "target_temperature c3 = 65"
      "adaptive_kp_step c3 = adaptive_kp_step (?T ?s1 c2)"
      "adaptive_ki_step c3 = adaptive_ki_step (?T ?s1 c2)"
      "adaptive_kd_step c3 = adaptive_kd_step (?T ?s1 c2)"
    by blast
  have f2: "target_temperature c2 = 65" "adaptive_kp_step c2 = 0.1" "adaptive_ki_step c2 = 0.01"
    "adaptive_kd_step c2 = 0.05"
    using arg_cong [OF fr2, of target_temperature] arg_cong [OF fr2, of adaptive_kp_step]
      arg_cong [OF fr2, of adaptive_ki_step] arg_cong [OF fr2, of adaptive_kd_step]
    by (simp_all add: controller_init_def)
  have s1: "adaptive_pid_calculate_performance_score ?s1 c2 = 1"
    by (rule score_at_target_fan_off [OF osc2 f2(1)])
  have s2: "adaptive_pid_calculate_performance_score ?s2 c3 = 0.9"
    by (rule score_at_target_fan_full [OF osc3 f3(3)])
  show ?thesis
    using indicator_tune_bookkeeping [of ?s1 c2] indicator_tune_bookkeeping [of ?s2 c3]
      indicator_tune_keeps_steps [of ?s1 c2] indicator_tune_keeps_steps [of ?s2 c3]
    by (simp add: indicator_auto_duty_run_def r1 r2 s1 s2 f2 f3)
qed

lemma daemon_regression_run:
  "adaptive_prev_score (auto_duty_run controller_init (replicate 30 (sample 65 65 0))) = 1 \<and>
   adaptive_prev_score (auto_duty_run controller_init
       (replicate 30 (sample 65 65 0) @ replicate 30 (sample 65 65 100))) = 0.9 \<and>
   adaptive_kp_step (auto_duty_run controller_init
       (replicate 30 (sample 65 65 0) @ replicate 30 (sample 65 65 100))) = - 0.08 \<and>
   adaptive_ki_step (auto_duty_run controller_init
       (replicate 30 (sample 65 65 0) @ replicate 30 (sample 65 65 100))) = - 0.008 \<and>
   adaptive_kd_step (auto_duty_run controller_init
       (replicate 30 (sample 65 65 0) @ replicate 30 (sample 65 65 100))) = - 0.04"
proof -
  let ?T = adaptive_pid_tune_parameters
  let ?s1 = "sample 65 65 0" and ?s2 = "sample 65 65 100"
  from two_passes [of ?T ?s1 ?s2, OF tune_bookkeeping same_temperature]
  obtain c2 c3 i1 e1 i2 e2 where
    r1: "auto_duty_run_with ?T controller_init (replicate 30 ?s1) =
           (?T ?s1 c2)\<lparr>adaptive_cycle_count := 0, pid_integral := i1, pid_prev_error := e1\<rparr>"
    and osc2: "adaptive_pid_calculate_oscillation c2 = 0"
    and fr2: "c2\<lparr>adaptive_temp_history := adaptive_temp_history controller_init,
              adaptive_temp_history_index := 0, adaptive_temp_history_size := 0,
              adaptive_cycle_count := 0, pid_integral := 0, pid_prev_error := 0\<rparr> = controller_init"
    and r2: "auto_duty_run_with ?T controller_init (replicate 30 ?s1 @ replicate 30 ?s2) =
           (?T ?s2 c3)\<lparr>adaptive_cycle_count := 0, pid_integral := i2, pid_prev_error := e2\<rparr>"
    and osc3: "adaptive_pid_calculate_oscillation c3 = 0"
    and f3: "adaptive_prev_score c3 = adaptive_pid_calculate_performance_score ?s1 c2"
      "adaptive_learning_cycles c3 = 1" "target_temperature c3 = 65"
      "adaptive_kp_step c3 = adaptive_kp_step (?T ?s1 c2)"
      "adaptive_ki_step c3 = adaptive_ki_step (?T ?s1 c2)"
      "adaptive_kd_step c3 = adaptive_kd_step (?T ?s1 c2)"
    by blast
  have f2: "target_temperature c2 = 65" "adaptive_kp_step c2 = 0.1" "adaptive_ki_step c2 = 0.01"
    "adaptive_kd_step c2 = 0.05" "adaptive_prev_score c2 = 0"
    using arg_cong [OF fr2, of target_temperature] arg_cong [OF fr2, of adaptive_kp_step]
      arg_cong [OF fr2, of adaptive_ki_step] arg_cong [OF fr2, of adaptive_kd_step]
      arg_cong [OF fr2, of adaptive_prev_score]
    by (simp_all add: controller_init_def)
  have s1: "adaptive_pid_calculate_performance_score ?s1 c2 = 1"
    by (rule score_at_target_fan_off [OF osc2 f2(1)])
  have s2: "adaptive_pid_calculate_performance_score ?s2 c3 = 0.9"
    by (rule score_at_target_fan_full [OF osc3 f3(3)])
  have k1: "adaptive_kp_step (?T ?s1 c2) = 0.1 \<and> adaptive_ki_step (?T ?s1 c2) = 0.01 \<and>
      adaptive_kd_step (?T ?s1 c2) = 0.05"
    using tune_keeps_steps [of ?s1 c2] by (simp add: s1 f2)
  have k2: "adaptive_kp_step (?T ?s2 c3) = - 0.8 * adaptive_kp_step c3 \<and>
      adaptive_ki_step (?T ?s2 c3) = - 0.8 * adaptive_ki_step c3 \<and>
      adaptive_kd_step (?T ?s2 c3) = - 0.8 * adaptive_kd_step c3"
    by (rule tune_reverses_steps) (simp add: s2 f3 s1)
  show ?thesis
    using tune_bookkeeping [of ?s1 c2] tune_bookkeeping [of ?s2 c3] k1 k2
    by (simp add: auto_duty_run_def r1 r2 s1 s2 f3)
qed

text \<open>
  Claim C6 on sixty samples at 65 degrees from the initial state, the fan at 0 percent for
  the first thirty and at 100 percent for the last thirty. The first pass scores 1, the
  second 0.9: a change of -0.1. In the indicator program the stored steps are afterwards
  still 0.1, 0.01 and 0.05; in the daemon, on the same samples, they are -0.08, -0.008 and
  -0.04.
\<close>

theorem regression_pass_keeps_stored_steps:
  "adaptive_prev_score (indicator_auto_duty_run controller_init (replicate 30 (sample 65 65 0))) = 1 \<and>
   adaptive_prev_score (indicator_auto_duty_run controller_init
       (replicate 30 (sample 65 65 0) @ replicate 30 (sample 65 65 100))) = 0.9 \<and>
   adaptive_learning_cycles (indicator_auto_duty_run controller_init
       (replicate 30 (sample 65 65 0) @ replicate 30 (sample 65 65 100))) = 2 \<and>
   adaptive_kp_step (indicator_auto_duty_run controller_init
       (replicate 30 (sample 65 65 0) @ replicate 30 (sample 65 65 100))) = 0.1 \<and>
   adaptive_ki_step (indicator_auto_duty_run controller_init
       (replicate 30 (sample 65 65 0) @ replicate 30 (sample 65 65 100))) = 0.01 \<and>
   adaptive_kd_step (indicator_auto_duty_run controller_init
       (replicate 30 (sample 65 65 0) @ replicate 30 (sample 65 65 100))) = 0.05 \<and>
   adaptive_kp_step (auto_duty_run controller_init
       (replicate 30 (sample 65 65 0) @ replicate 30 (sample 65 65 100))) = - 0.08 \<and>
   adaptive_ki_step (auto_duty_run controller_init
       (replicate 30 (sample 65 65 0) @ replicate 30 (sample 65 65 100))) = - 0.008 \<and>
   adaptive_kd_step (auto_duty_run controller_init
       (replicate 30 (sample 65 65 0) @ replicate 30 (sample 65 65 100))) = - 0.04"
  using indicator_regression_run daemon_regression_run by simp

section \<open>Properties of the socket server\<close>

lemma digit_char_props:
  "d < 10 \<Longrightarrow> isdigit (char_of (48 + d)) \<and> digit_val (char_of (48 + d)) = d"
  by (simp add: isdigit_def digit_val_def)

lemma string_of_nat_nonempty: "string_of_nat n \<noteq> []"
  by (subst string_of_nat.simps) simp

lemma string_of_nat_isdigit: "\<forall>ch \<in> set (string_of_nat n). isdigit ch"
proof (induction n rule: string_of_nat.induct)
  case (1 n)
  show ?case
  proof (cases "n < 10")
    case True
    then show ?thesis by (subst string_of_nat.simps) (simp add: digit_char_props)
  next
    case False
    then have "n mod 10 < 10" by simp
    with False 1 show ?thesis by (subst string_of_nat.simps) (simp add: digit_char_props)
  qed
qed

lemma string_of_nat_length: "length (string_of_nat n) \<le> Suc n"
proof (induction n rule: string_of_nat.induct)
  case (1 n)
  show ?case
  proof (cases "n < 10")
    case True
    then show ?thesis by (subst string_of_nat.simps) simp
  next
    case False
    then have "Suc (n div 10) < n" by simp
    with False 1 show ?thesis by (subst string_of_nat.simps) simp
  qed
qed

lemma digits_value_snoc: "digits_value (ds @ [ch]) = 10 * digits_value ds + digit_val ch"
  by (simp add: digits_value_def)

lemma digits_value_string_of_nat: "digits_value (string_of_nat n) = n"
proof (induction n rule: string_of_nat.induct)
  case (1 n)
  show ?case
  proof (cases "n < 10")
    case True
    then show ?thesis
      by (subst string_of_nat.simps) (simp add: digits_value_def digit_char_props)
  next
    case False
    then have "n mod 10 < 10" by simp
    with False 1 show ?thesis
      by (subst string_of_nat.simps) (simp add: digits_value_snoc digit_char_props)
  qed
qed

lemma isdigit_not_space_sign:
  "isdigit ch \<Longrightarrow> \<not> isspace ch \<and> ch \<noteq> CHR ''-'' \<and> ch \<noteq> CHR ''+''"
  by (auto simp add: isdigit_def isspace_def)

lemma scanf_store_int_small: "- (2 ^ 31) \<le> n \<Longrightarrow> n < 2 ^ 31 \<Longrightarrow> scanf_store_int n = n"
proof -
  assume a: "- (2 ^ 31) \<le> n" and b: "n < 2 ^ 31"
  have "max (- (2 ^ 63)) (min (2 ^ 63 - 1) n) = n" using a b by simp
  moreover have "sint (word_of_int n :: 32 word) = signed_take_bit 31 n"
    by (simp add: sint_sbintrunc')
  moreover have "signed_take_bit 31 n = n"
    using a b by (simp add: signed_take_bit_int_eq_self)
  ultimately show ?thesis by (simp add: scanf_store_int_def)
qed

lemma scan_number_digits:
  assumes "ds \<noteq> []" and "\<forall>ch \<in> set ds. isdigit ch"
  shows "scan_number (CHR '' '' # ds) = Some (int (digits_value ds))"
    and "scan_number (CHR '' '' # CHR ''-'' # ds) = Some (- int (digits_value ds))"
proof -
  obtain d ds' where ds: "ds = d # ds'" using assms(1) by (cases ds) auto
  have d: "isdigit d" using assms(2) ds by simp
  have sp: "isspace (CHR '' '')" "\<not> isspace (CHR ''-'')" "\<not> isdigit (CHR ''-'')"
    by (simp_all add: isspace_def isdigit_def)
  have tw: "takeWhile isdigit ds' = ds'" using assms(2) ds by (simp add: takeWhile_eq_all_conv)
  show "scan_number (CHR '' '' # ds) = Some (int (digits_value ds))"
    using isdigit_not_space_sign [OF d] sp d by (simp add: ds scan_number_def Let_def tw)
  show "scan_number (CHR '' '' # CHR ''-'' # ds) = Some (- int (digits_value ds))"
    using sp d by (simp add: ds scan_number_def Let_def tw)
qed


lemma scan_d_space_nat:
  assumes "int n < 2 ^ 31"
  shows "scan_d (CHR '' '' # string_of_nat n) = Some (int n)"
proof -
  have "scan_number (CHR '' '' # string_of_nat n) = Some (int n)"
    using scan_number_digits(1) [OF string_of_nat_nonempty string_of_nat_isdigit, of n]
    by (simp add: digits_value_string_of_nat)
  then show ?thesis
    using assms by (simp add: scan_d_def scanf_store_int_small)
qed

text \<open>
  Every \<^verbatim>\<open>SET_TARGET_TEMP n\<close> with \<open>n\<close> in 40..100 is acknowledged, and the handler returns
  the shared structure it was given.
\<close>

lemma set_target_temp_reply:
  assumes "40 \<le> n" "n \<le> 100"
  shows "handle_client_command sh (''SET_TARGET_TEMP '' @ printf_d n) =
     (sh, ''OK: Target temperature set to '' @ printf_d n @ degree_sign @ ''C'')"
proof -
  have p: "printf_d n = string_of_nat (nat n)" using assms by (simp add: printf_d_def)
  have "scan_d (CHR '' '' # string_of_nat (nat n)) = Some (int (nat n))"
    using assms by (intro scan_d_space_nat) simp
  then have sc: "sscanf_lit_d ''SET_TARGET_TEMP'' (''SET_TARGET_TEMP '' @ printf_d n) = Some n"
    using assms by (simp add: sscanf_lit_d_def p)
  have len: "length (''OK: Target temperature set to '' @ printf_d n @ degree_sign @ ''C'') \<le> 1023"
    using assms string_of_nat_length [of "nat n"] by (simp add: p degree_sign_def)
  show ?thesis
    using assms sc len
    by (simp add: handle_client_command_def snprintf_response_def BUFFER_SIZE_def)
qed

lemma snprintf_response_prefix:
  "length p \<le> 1023 \<Longrightarrow> take (length p) (snprintf_response (p @ s)) = p"
  by (simp add: snprintf_response_def BUFFER_SIZE_def)


text \<open>
  Claim C10. A request that the handler treats as \<^verbatim>\<open>STATUS\<close> (its first six characters
  are \<^verbatim>\<open>STATUS\<close>), \<^verbatim>\<open>GET_TEMP\<close> or \<^verbatim>\<open>GET_FAN\<close> leaves the shared structure as it
  was, field for field.
\<close>

theorem read_only_requests_frame:
  "take 6 command = ''STATUS'' \<or> command = ''GET_TEMP'' \<or> command = ''GET_FAN'' \<Longrightarrow>
     fst (handle_client_command sh command) = sh"
  by (auto simp add: handle_client_command_def)

theorem read_only_requests_frame_witness:
  "fst (handle_client_command daemon_init_share ''STATUS'') = daemon_init_share \<and>
   fst (handle_client_command daemon_init_share ''GET_TEMP'') = daemon_init_share \<and>
   fst (handle_client_command daemon_init_share ''GET_FAN'') = daemon_init_share"
  using read_only_requests_frame [of "''STATUS''" daemon_init_share]
    read_only_requests_frame [of "''GET_TEMP''" daemon_init_share]
    read_only_requests_frame [of "''GET_FAN''" daemon_init_share]
  by simp





lemma sscanf_lit_d_number:
  "sscanf_lit_d lit s = map_option scanf_store_int (sscanf_lit_number lit s)"
  by (simp add: sscanf_lit_d_def sscanf_lit_number_def scan_d_def)








text \<open>
  The bound on the number is needed in the statement above. The C standard leaves \<^verbatim>\<open>%d\<close>
  undefined for a number that \<^verbatim>\<open>int\<close> does not hold; with the GNU C library, as modelled
  by \<open>scanf_store_int\<close>, the request \<^verbatim>\<open>SET_FAN 4294967346\<close> is stored as 50 and accepted.
\<close>

lemma scanf_store_int_wraps: "scanf_store_int 4294967346 = 50"
proof -
  have a1: "max (- (2 ^ 63)) (min (2 ^ 63 - 1) (4294967346::int)) = 4294967346" by simp
  have a2: "sint (word_of_int 4294967346 :: 32 word) = signed_take_bit 31 4294967346"
    by (simp only: sint_sbintrunc') simp
  have a3: "(4294967346::int) = 50 + 2 ^ 32" by simp
  have a4: "signed_take_bit 31 (50 + 2 ^ 32 :: int) = 50"
    by (simp add: signed_take_bit_eq_take_bit_shift take_bit_eq_mod)
  have "scanf_store_int 4294967346 = signed_take_bit 31 4294967346"
    by (simp only: scanf_store_int_def a1 a2)
  also have "\<dots> = signed_take_bit 31 (50 + 2 ^ 32 :: int)" by (simp only: a3 [symmetric])
  finally show ?thesis by (simp only: a4)
qed

lemma set_fan_beyond_int_accepted:
  "handle_client_command daemon_init_share ''SET_FAN 4294967346'' =
     (daemon_init_share\<lparr>auto_duty := 0, manual_next_fan_duty := 50\<rparr>, ''OK: Fan set to 50%'')"
proof -
  have n: "sscanf_lit_number ''SET_FAN'' ''SET_FAN 4294967346'' = Some 4294967346"
    by (simp add: sscanf_lit_number_def scan_number_def isspace_def isdigit_def digits_value_def
        digit_val_def Let_def)
  have p: "printf_d 50 = ''50''" by code_simp
  have d: "sscanf_lit_d ''SET_FAN'' ''SET_FAN 4294967346'' = Some 50"
    by (simp only: sscanf_lit_d_number n option.map scanf_store_int_wraps)
  show ?thesis
    by (simp add: handle_client_command_def d p snprintf_response_def BUFFER_SIZE_def)
qed

text \<open>
  Claim C1 at the request \<^verbatim>\<open>SET_TARGET_TEMP 70\<close>, sent to a daemon whose target is 65. The
  reply is the acknowledgement, but the daemon is exactly as before: its target is still
  65, and the next duty computed at 68 degrees is 8 (from the target 65), where a target of
  70 would give 0.
\<close>

theorem set_target_temp_acknowledged_not_applied:
  "daemon_request ''SET_TARGET_TEMP 70'' (daemon_init quiet_ec) =
     (daemon_init quiet_ec, Some (''OK: Target temperature set to 70'' @ degree_sign @ ''C'')) \<and>
   target_temperature (ctl (fst (daemon_request ''SET_TARGET_TEMP 70'' (daemon_init quiet_ec)))) = 65 \<and>
   fst (ec_auto_duty_adjust (daemon_init_share\<lparr>cpu_temp := 68, gpu_temp := 60\<rparr>)
          (ctl (fst (daemon_request ''SET_TARGET_TEMP 70'' (daemon_init quiet_ec))))) = 8 \<and>
   fst (ec_auto_duty_adjust (daemon_init_share\<lparr>cpu_temp := 68, gpu_temp := 60\<rparr>)
          (controller_init\<lparr>target_temperature := 70\<rparr>)) = 0"
proof -
  have r: "daemon_request ''SET_TARGET_TEMP 70'' (daemon_init quiet_ec) =
      (daemon_init quiet_ec, Some (''OK: Target temperature set to 70'' @ degree_sign @ ''C''))"
  proof -
    have p: "printf_d 70 = ''70''" by code_simp
    have "handle_client_command (share (daemon_init quiet_ec)) ''SET_TARGET_TEMP 70'' =
        (share (daemon_init quiet_ec), ''OK: Target temperature set to 70'' @ degree_sign @ ''C'')"
      using set_target_temp_reply [of 70 "share (daemon_init quiet_ec)"] by (simp add: p)
    then show ?thesis
      by (simp add: daemon_request_def socket_server_request_def BUFFER_SIZE_def)
  qed
  have t: "ctl (daemon_init quiet_ec) = controller_init" by (simp add: daemon_init_def)
  have a: "fst (ec_auto_duty_adjust (daemon_init_share\<lparr>cpu_temp := 68, gpu_temp := 60\<rparr>)
      controller_init) = 8"
    by (simp add: eval_defs Let_def)
  have b: "fst (ec_auto_duty_adjust (daemon_init_share\<lparr>cpu_temp := 68, gpu_temp := 60\<rparr>)
      (controller_init\<lparr>target_temperature := 70\<rparr>)) = 0"
    by (simp add: eval_defs Let_def)
  have c: "target_temperature controller_init = 65" by (simp add: controller_init_def)
  show ?thesis by (simp only: r fst_conv t a b c)
qed

end
